theory Spec2Isabelle
  imports Complex_Main "HOL-Library.Sublist"
begin

section \<open>The training utility \<open>train_unet\<close> of segmed/train/train_unet.py\<close>

text \<open>
  \<open>train_unet\<close> is a sequence of calls into TensorFlow/Keras, numpy and matplotlib.
  The libraries are not part of the repository, so they are a parameter of the model
  (the record \<open>framework\<close>). The repository's own code is embedded as it is written:
  which library call is made, in which order, with which arguments, on which object.

  \<^item> Every library call is appended to a trace, so that a statement about "the call
    that constructs the checkpoint" is a statement about an element of the trace.
  \<^item> A library call either returns or raises. What it raises is decided by the
    framework from the calls made so far and the call at hand; the model has no
    \<open>try\<close>, as the source has none.
  \<^item> A directory iterator is a mutable object: \<open>next\<close> advances it. The iterators
    live in a store (\<open>seen\<close>: how many batches each one has handed out), and the
    generators built by \<open>zip\<close> hold the iterators by reference.
  \<^item> The \<open>for\<close> loop of the debugging branch runs on fuel: one unit for each
    iteration, \<open>OutOfFuel\<close> when the loop is still running after that many.
  \<^item> Where a claim is about what the libraries do on their side, that behaviour has
    definitions of its own, which follow Keras and not the repository: whether the
    batches of an iterator depend on the random state, and when \<open>ModelCheckpoint\<close>
    saves the model.
\<close>

subsection \<open>Values passed to the libraries\<close>

text \<open>
  Python floats that the function passes on are kept as written and are never computed
  with: \<open>Float_lit r\<close> is the double that the literal \<open>r\<close> denotes, and
  \<open>Float_div x y\<close> the double that the division \<open>x / y\<close> yields, so that
  \<open>1.0 / 255.0\<close> is \<open>Float_div (Float_lit 1) (Float_lit 255)\<close> and not the real 1/255.
\<close>

datatype pyfloat = Float_lit real | Float_div pyfloat pyfloat

datatype tf_dtype = TF_float32

datatype loss_fn = Binary_crossentropy

text \<open>The two metric functions of \<open>segmed.metrics\<close>; the source passes them by name.\<close>

datatype metric_fn = Jaccard_index | Dice_coef

text \<open>The keyword arguments of \<open>ImageDataGenerator\<close> (the dict \<open>data_gen_args\<close>).\<close>

record datagen_kwargs =
  kw_rescale :: pyfloat
  kw_validation_split :: "pyfloat option"
  kw_dtype :: tf_dtype

text \<open>The arguments of \<open>flow_from_directory\<close>; \<open>None\<close> is Python's \<open>None\<close>.\<close>

record flow_kwargs =
  kw_directory :: string
  kw_class_mode :: "string option"
  kw_color_mode :: string
  kw_batch_size :: "int option"
  kw_seed :: "int option"
  kw_subset :: string

text \<open>A directory iterator object: its identity in the store, the generator it was
  made by and the arguments it was made with.\<close>

datatype diriter = DirectoryIterator (it_id: nat) (it_datagen: datagen_kwargs) (it_flow: flow_kwargs)

text \<open>The generator expression \<open>(pair for pair in zip(a, b))\<close> over two iterator objects.\<close>

datatype gen = GenZip diriter diriter

record checkpoint_kwargs =
  kw_filepath :: "string option"
  kw_monitor :: "string option"
  kw_verbose :: int
  kw_save_best_only :: bool
  kw_mode :: string

record 'o compile_kwargs =
  kw_loss :: loss_fn
  kw_optimizer :: 'o
  kw_metrics :: "metric_fn list"

record fit_kwargs =
  kw_generator :: gen
  kw_steps_per_epoch :: "int option"
  kw_epochs :: "int option"
  kw_callbacks :: "checkpoint_kwargs list"
  kw_fit_verbose :: int
  kw_validation_data :: gen
  kw_validation_steps :: "int option"

subsection \<open>Library calls, the trace and the store\<close>

text \<open>
  \<open>'a\<close> is the type of numpy arrays, \<open>'g\<close> of the \<open>segmodel\<close> argument, \<open>'m\<close> of Keras
  models, \<open>'o\<close> of optimizers. \<open>Getitem_first x\<close> is \<open>x[0]\<close> (the same as
  \<open>x[0, ...]\<close>), \<open>Getitem_first_channel x\<close> is \<open>x[0, ..., 0]\<close>. \<open>Collect g s\<close> is
  \<open>segmodel.collect()\<close> on the model \<open>g\<close> whose attribute \<open>input_size\<close> has just been
  set to \<open>s\<close>.
\<close>

datatype ('a, 'g, 'm, 'o) call =
    ImageDataGenerator datagen_kwargs
  | Flow_from_directory datagen_kwargs flow_kwargs
  | Next diriter
  | Import_pyplot
  | Plt_figure int
  | Plt_imshow 'a
  | Plt_show
  | Getitem_first 'a
  | Getitem_first_channel 'a
  | Collect 'g "int list"
  | ModelCheckpoint checkpoint_kwargs
  | Compile 'm "'o compile_kwargs"
  | Fit_generator 'm fit_kwargs

record ('a, 'g, 'm, 'o) state =
  seen :: "nat \<Rightarrow> nat"
  fresh :: nat
  trace :: "('a, 'g, 'm, 'o) call list"

definition init_state :: "('a, 'g, 'm, 'o) state" where
  "init_state = \<lparr>seen = (\<lambda>_. 0), fresh = 0, trace = []\<rparr>"

text \<open>The logs of an epoch of training: the values of the quantities reported, by name.\<close>

type_synonym logs = "string \<Rightarrow> real option"

text \<open>
  The libraries. \<open>raises\<close> tells, from the calls made so far, whether a call raises and
  what. \<open>random_state\<close> is the state of numpy's global random generator, which the run
  finds and does not choose: two runs over the same directories are runs in two
  frameworks that differ in \<open>random_state\<close> at most. \<open>flow_batches d f r k\<close> is the
  batch that a directory iterator built by generator \<open>d\<close> with arguments \<open>f\<close> hands out
  at its \<open>k\<close>-th \<open>next\<close> (counted from 0) when the random state is \<open>r\<close>: Keras'
  directory iterators are endless, \<open>next\<close> never signals the end. \<open>fit_generator\<close> reads
  the store, since it draws from the generators it is given. \<open>epoch_logs m f sn e\<close> are
  the logs that this training hands to its callbacks at the end of epoch \<open>e\<close>.
\<close>

record ('a, 'e, 'g, 'm, 'o, 'h) framework =
  raises :: "('a, 'g, 'm, 'o) call list \<Rightarrow> ('a, 'g, 'm, 'o) call \<Rightarrow> 'e option"
  random_state :: nat
  flow_batches :: "datagen_kwargs \<Rightarrow> flow_kwargs \<Rightarrow> nat \<Rightarrow> nat \<Rightarrow> 'a"
  item0 :: "'a \<Rightarrow> 'a"
  item0_channel0 :: "'a \<Rightarrow> 'a"
  shape :: "'a \<Rightarrow> int list"
  collect :: "'g \<Rightarrow> int list \<Rightarrow> 'm"
  compile :: "'m \<Rightarrow> 'o compile_kwargs \<Rightarrow> 'm"
  fit_generator :: "'m \<Rightarrow> fit_kwargs \<Rightarrow> (nat \<Rightarrow> nat) \<Rightarrow> 'h"
  epoch_logs :: "'m \<Rightarrow> fit_kwargs \<Rightarrow> (nat \<Rightarrow> nat) \<Rightarrow> nat \<Rightarrow> logs"

datatype ('e, 'x) outcome = Returns 'x | Raises 'e | OutOfFuel

definition return :: "'x \<Rightarrow> 's \<Rightarrow> ('e, 'x) outcome \<times> 's" where
  "return x s = (Returns x, s)"

text \<open>Sequencing: an exception (and running out of fuel) skips the rest.\<close>

definition and_then ::
  "('s \<Rightarrow> ('e, 'x) outcome \<times> 's) \<Rightarrow> ('x \<Rightarrow> 's \<Rightarrow> ('e, 'y) outcome \<times> 's) \<Rightarrow> 's \<Rightarrow> ('e, 'y) outcome \<times> 's" where
  "and_then m f s =
     (case m s of
        (Returns x, s') \<Rightarrow> f x s'
      | (Raises e, s') \<Rightarrow> (Raises e, s')
      | (OutOfFuel, s') \<Rightarrow> (OutOfFuel, s'))"

text \<open>A library call \<open>c\<close> that returns \<open>v\<close> unless the framework raises.\<close>

definition fw_call ::
  "('a, 'e, 'g, 'm, 'o, 'h) framework \<Rightarrow> ('a, 'g, 'm, 'o) call \<Rightarrow> 'x \<Rightarrow>
   ('a, 'g, 'm, 'o) state \<Rightarrow> ('e, 'x) outcome \<times> ('a, 'g, 'm, 'o) state" where
  "fw_call fw c v s =
     (case raises fw (trace s) c of
        Some e \<Rightarrow> (Raises e, s\<lparr>trace := trace s @ [c]\<rparr>)
      | None \<Rightarrow> (Returns v, s\<lparr>trace := trace s @ [c]\<rparr>))"

text \<open>\<open>d.flow_from_directory(...)\<close>: a new iterator object, which has handed out nothing.\<close>

definition flow_from_directory ::
  "('a, 'e, 'g, 'm, 'o, 'h) framework \<Rightarrow> datagen_kwargs \<Rightarrow> flow_kwargs \<Rightarrow>
   ('a, 'g, 'm, 'o) state \<Rightarrow> ('e, diriter) outcome \<times> ('a, 'g, 'm, 'o) state" where
  "flow_from_directory fw d f =
     and_then (fw_call fw (Flow_from_directory d f) ())
       (\<lambda>_ s. (Returns (DirectoryIterator (fresh s) d f),
                s\<lparr>seen := (seen s)(fresh s := 0), fresh := Suc (fresh s)\<rparr>))"

text \<open>\<open>next(it)\<close>: the batch at the iterator's position; the iterator moves on.\<close>

definition next_batch ::
  "('a, 'e, 'g, 'm, 'o, 'h) framework \<Rightarrow> diriter \<Rightarrow>
   ('a, 'g, 'm, 'o) state \<Rightarrow> ('e, 'a) outcome \<times> ('a, 'g, 'm, 'o) state" where
  "next_batch fw it =
     and_then (fw_call fw (Next it) ())
       (\<lambda>_ s. (Returns (flow_batches fw (it_datagen it) (it_flow it) (random_state fw) (seen s (it_id it))),
                s\<lparr>seen := (seen s)(it_id it := Suc (seen s (it_id it)))\<rparr>))"

text \<open>\<open>next\<close> on the zip generator: one batch from the first iterator, then one from the
  second, as a pair.\<close>

fun gen_next ::
  "('a, 'e, 'g, 'm, 'o, 'h) framework \<Rightarrow> gen \<Rightarrow>
   ('a, 'g, 'm, 'o) state \<Rightarrow> ('e, 'a \<times> 'a) outcome \<times> ('a, 'g, 'm, 'o) state" where
  "gen_next fw (GenZip a b) =
     and_then (next_batch fw a) (\<lambda>i.
     and_then (next_batch fw b) (\<lambda>j.
     return (i, j)))"

text \<open>The \<open>k\<close>-th pair (from 0) that a consumer draws from a generator, starting in a
  given store: \<open>k\<close> pairs are drawn and dropped, the next one is the result.\<close>

fun pull ::
  "('a, 'e, 'g, 'm, 'o, 'h) framework \<Rightarrow> gen \<Rightarrow> nat \<Rightarrow>
   ('a, 'g, 'm, 'o) state \<Rightarrow> ('e, 'a \<times> 'a) outcome \<times> ('a, 'g, 'm, 'o) state" where
  "pull fw g 0 = gen_next fw g"
| "pull fw g (Suc k) = and_then (gen_next fw g) (\<lambda>_. pull fw g k)"

text \<open>\<open>model.fit_generator(...)\<close>: training runs in the store as it is at the call.\<close>

definition fit_generator_call ::
  "('a, 'e, 'g, 'm, 'o, 'h) framework \<Rightarrow> 'm \<Rightarrow> fit_kwargs \<Rightarrow>
   ('a, 'g, 'm, 'o) state \<Rightarrow> ('e, 'h) outcome \<times> ('a, 'g, 'm, 'o) state" where
  "fit_generator_call fw model f s =
     fw_call fw (Fit_generator model f) (fit_generator fw model f (seen s)) s"

subsection \<open>The function\<close>

text \<open>The parameters of \<open>train_unet\<close>. \<open>show_flag\<close> is the parameter \<open>show\<close>, a word that
  Isabelle reserves. An argument annotated \<open>Optional\<close> may be \<open>None\<close>.\<close>

record ('g, 'o) args =
  segmodel :: 'g
  img_path :: string
  mask_path :: string
  batch_size :: "int option"
  epochs :: "int option"
  steps_per_epoch :: "int option"
  val_split :: "pyfloat option"
  optimizer :: 'o
  monitor :: "string option"
  model_file :: "string option"
  seed :: "int option"
  show_flag :: bool

text \<open>The body of the debugging loop (lines 110 to 115), for one pair \<open>(i, j)\<close>.\<close>

definition show_pair ::
  "('a, 'e, 'g, 'm, 'o, 'h) framework \<Rightarrow> 'a \<times> 'a \<Rightarrow>
   ('a, 'g, 'm, 'o) state \<Rightarrow> ('e, unit) outcome \<times> ('a, 'g, 'm, 'o) state" where
  "show_pair fw p =
     (case p of (i, j) \<Rightarrow>
        and_then (fw_call fw (Plt_figure 0) ()) (\<lambda>_.
        and_then (fw_call fw (Getitem_first i) (item0 fw i)) (\<lambda>x.
        and_then (fw_call fw (Plt_imshow x) ()) (\<lambda>_.
        and_then (fw_call fw (Plt_figure 1) ()) (\<lambda>_.
        and_then (fw_call fw (Getitem_first_channel j) (item0_channel0 fw j)) (\<lambda>y.
        and_then (fw_call fw (Plt_imshow y) ()) (\<lambda>_.
        fw_call fw Plt_show ())))))))"

text \<open>\<open>for i, j in train_generator: ...\<close> with fuel. The generator never ends, so the
  loop has no normal exit: it raises or it goes on.\<close>

fun show_loop ::
  "('a, 'e, 'g, 'm, 'o, 'h) framework \<Rightarrow> nat \<Rightarrow> gen \<Rightarrow>
   ('a, 'g, 'm, 'o) state \<Rightarrow> ('e, unit) outcome \<times> ('a, 'g, 'm, 'o) state" where
  "show_loop fw 0 g = (\<lambda>s. (OutOfFuel, s))"
| "show_loop fw (Suc n) g =
     and_then (gen_next fw g) (\<lambda>p.
     and_then (show_pair fw p) (\<lambda>_.
     show_loop fw n g))"

definition data_gen_args :: "('g, 'o) args \<Rightarrow> datagen_kwargs" where
  "data_gen_args a =
     \<lparr>kw_rescale = Float_div (Float_lit 1) (Float_lit 255),
      kw_validation_split = val_split a, kw_dtype = TF_float32\<rparr>"

definition train_unet_body ::
  "('a, 'e, 'g, 'm, 'o, 'h) framework \<Rightarrow> nat \<Rightarrow> ('g, 'o) args \<Rightarrow>
   ('a, 'g, 'm, 'o) state \<Rightarrow> ('e, 'h) outcome \<times> ('a, 'g, 'm, 'o) state" where
  "train_unet_body fw fuel a =
     and_then (fw_call fw (ImageDataGenerator (data_gen_args a)) (data_gen_args a)) (\<lambda>image_datagen.
     and_then (fw_call fw (ImageDataGenerator (data_gen_args a)) (data_gen_args a)) (\<lambda>mask_datagen.
     and_then (flow_from_directory fw image_datagen
        \<lparr>kw_directory = img_path a, kw_class_mode = None, kw_color_mode = ''rgb'',
         kw_batch_size = batch_size a, kw_seed = seed a, kw_subset = ''training''\<rparr>)
       (\<lambda>image_generator_train.
     and_then (flow_from_directory fw mask_datagen
        \<lparr>kw_directory = mask_path a, kw_class_mode = None, kw_color_mode = ''grayscale'',
         kw_batch_size = batch_size a, kw_seed = seed a, kw_subset = ''training''\<rparr>)
       (\<lambda>mask_generator_train.
     let train_generator = GenZip image_generator_train mask_generator_train in
     and_then (flow_from_directory fw image_datagen
        \<lparr>kw_directory = img_path a, kw_class_mode = None, kw_color_mode = ''rgb'',
         kw_batch_size = batch_size a, kw_seed = seed a, kw_subset = ''validation''\<rparr>)
       (\<lambda>image_generator_val.
     and_then (flow_from_directory fw mask_datagen
        \<lparr>kw_directory = mask_path a, kw_class_mode = None, kw_color_mode = ''grayscale'',
         kw_batch_size = batch_size a, kw_seed = seed a, kw_subset = ''validation''\<rparr>)
       (\<lambda>mask_generator_val.
     let val_generator = GenZip image_generator_val mask_generator_val in
     and_then
       (if show_flag a
        then and_then (fw_call fw Import_pyplot ()) (\<lambda>_. show_loop fw fuel train_generator)
        else return ())
       (\<lambda>_.
     and_then (next_batch fw image_generator_train) (\<lambda>b.
     and_then (fw_call fw (Getitem_first b) (item0 fw b)) (\<lambda>x.
     and_then (fw_call fw (Collect (segmodel a) (shape fw x)) (collect fw (segmodel a) (shape fw x)))
       (\<lambda>model.
     let ckpt = \<lparr>kw_filepath = model_file a, kw_monitor = monitor a, kw_verbose = 1,
                 kw_save_best_only = True, kw_mode = ''max''\<rparr> in
     and_then (fw_call fw (ModelCheckpoint ckpt) ckpt) (\<lambda>checkpoint.
     let ckw = \<lparr>kw_loss = Binary_crossentropy, kw_optimizer = optimizer a,
                kw_metrics = [Jaccard_index, Dice_coef]\<rparr> in
     and_then (fw_call fw (Compile model ckw) (compile fw model ckw)) (\<lambda>model.
     let fkw = \<lparr>kw_generator = train_generator, kw_steps_per_epoch = steps_per_epoch a,
                kw_epochs = epochs a, kw_callbacks = [checkpoint], kw_fit_verbose = 1,
                kw_validation_data = val_generator,
                kw_validation_steps = steps_per_epoch a\<rparr> in
     and_then (fit_generator_call fw model fkw) (\<lambda>history.
     return history)))))))))))))"

text \<open>A call of \<open>train_unet\<close>: the body, run from the empty store and trace.\<close>

definition train_unet ::
  "('a, 'e, 'g, 'm, 'o, 'h) framework \<Rightarrow> nat \<Rightarrow> ('g, 'o) args \<Rightarrow>
   ('e, 'h) outcome \<times> ('a, 'g, 'm, 'o) state" where
  "train_unet fw fuel a = train_unet_body fw fuel a init_state"

subsection \<open>The calls of a run, named\<close>

text \<open>
  The objects and argument records that \<open>train_unet\<close> builds, under the names of the
  source's local variables, and the calls it makes on a path with \<open>show=False\<close>. They
  are related to \<open>train_unet\<close> by the lemmas below, not by definition.
\<close>

definition image_flow :: "('g, 'o) args \<Rightarrow> string \<Rightarrow> flow_kwargs" where
  "image_flow a sub = \<lparr>kw_directory = img_path a, kw_class_mode = None, kw_color_mode = ''rgb'',
         kw_batch_size = batch_size a, kw_seed = seed a, kw_subset = sub\<rparr>"

definition mask_flow :: "('g, 'o) args \<Rightarrow> string \<Rightarrow> flow_kwargs" where
  "mask_flow a sub = \<lparr>kw_directory = mask_path a, kw_class_mode = None, kw_color_mode = ''grayscale'',
         kw_batch_size = batch_size a, kw_seed = seed a, kw_subset = sub\<rparr>"

definition setup_calls :: "('g, 'o) args \<Rightarrow> ('a, 'g, 'm, 'o) call list" where
  "setup_calls a =
     [ImageDataGenerator (data_gen_args a), ImageDataGenerator (data_gen_args a),
      Flow_from_directory (data_gen_args a) (image_flow a ''training''),
      Flow_from_directory (data_gen_args a) (mask_flow a ''training''),
      Flow_from_directory (data_gen_args a) (image_flow a ''validation''),
      Flow_from_directory (data_gen_args a) (mask_flow a ''validation'')]"

definition image_generator_train :: "('g, 'o) args \<Rightarrow> diriter" where
  "image_generator_train a = DirectoryIterator 0 (data_gen_args a) (image_flow a ''training'')"
definition mask_generator_train :: "('g, 'o) args \<Rightarrow> diriter" where
  "mask_generator_train a = DirectoryIterator 1 (data_gen_args a) (mask_flow a ''training'')"
definition image_generator_val :: "('g, 'o) args \<Rightarrow> diriter" where
  "image_generator_val a = DirectoryIterator 2 (data_gen_args a) (image_flow a ''validation'')"
definition mask_generator_val :: "('g, 'o) args \<Rightarrow> diriter" where
  "mask_generator_val a = DirectoryIterator 3 (data_gen_args a) (mask_flow a ''validation'')"

definition train_generator :: "('g, 'o) args \<Rightarrow> gen" where
  "train_generator a = GenZip (image_generator_train a) (mask_generator_train a)"
definition val_generator :: "('g, 'o) args \<Rightarrow> gen" where
  "val_generator a = GenZip (image_generator_val a) (mask_generator_val a)"

definition checkpoint :: "('g, 'o) args \<Rightarrow> checkpoint_kwargs" where
  "checkpoint a = \<lparr>kw_filepath = model_file a, kw_monitor = monitor a, kw_verbose = 1,
                 kw_save_best_only = True, kw_mode = ''max''\<rparr>"

definition compile_args :: "('g, 'o) args \<Rightarrow> 'o compile_kwargs" where
  "compile_args a = \<lparr>kw_loss = Binary_crossentropy, kw_optimizer = optimizer a,
                kw_metrics = [Jaccard_index, Dice_coef]\<rparr>"

definition fit_args :: "('g, 'o) args \<Rightarrow> fit_kwargs" where
  "fit_args a = \<lparr>kw_generator = train_generator a, kw_steps_per_epoch = steps_per_epoch a,
                kw_epochs = epochs a, kw_callbacks = [checkpoint a], kw_fit_verbose = 1,
                kw_validation_data = val_generator a,
                kw_validation_steps = steps_per_epoch a\<rparr>"

definition first_batch :: "('a, 'e, 'g, 'm, 'o, 'h) framework \<Rightarrow> ('g, 'o) args \<Rightarrow> 'a" where
  "first_batch fw a =
     flow_batches fw (data_gen_args a) (image_flow a ''training'') (random_state fw) 0"

definition built_model :: "('a, 'e, 'g, 'm, 'o, 'h) framework \<Rightarrow> ('g, 'o) args \<Rightarrow> 'm" where
  "built_model fw a = collect fw (segmodel a) (shape fw (item0 fw (first_batch fw a)))"

definition training_calls :: "('a, 'e, 'g, 'm, 'o, 'h) framework \<Rightarrow> ('g, 'o) args \<Rightarrow> ('a, 'g, 'm, 'o) call list" where
  "training_calls fw a =
     [Next (image_generator_train a),
      Getitem_first (first_batch fw a),
      Collect (segmodel a) (shape fw (item0 fw (first_batch fw a))),
      ModelCheckpoint (checkpoint a),
      Compile (built_model fw a) (compile_args a),
      Fit_generator (compile fw (built_model fw a) (compile_args a)) (fit_args a)]"


text \<open>The calls of the debugging branch (\<open>show=True\<close>).\<close>

fun debug_call :: "('g, 'o) args \<Rightarrow> ('a, 'g, 'm, 'o) call \<Rightarrow> bool" where
  "debug_call a Import_pyplot = True"
| "debug_call a (Next it) = (it = image_generator_train a \<or> it = mask_generator_train a)"
| "debug_call a (Plt_figure k) = (k = 0 \<or> k = 1)"
| "debug_call a (Plt_imshow x) = True"
| "debug_call a Plt_show = True"
| "debug_call a (Getitem_first x) = True"
| "debug_call a (Getitem_first_channel x) = True"
| "debug_call a _ = False"


text \<open>The calls that build, configure and train the model.\<close>

fun training_call :: "('a, 'g, 'm, 'o) call \<Rightarrow> bool" where
  "training_call (Collect g s) = True"
| "training_call (ModelCheckpoint k) = True"
| "training_call (Compile m k) = True"
| "training_call (Fit_generator m k) = True"
| "training_call _ = False"

text \<open>The calls that construct generators and iterators.\<close>

fun construction_call :: "('a, 'g, 'm, 'o) call \<Rightarrow> bool" where
  "construction_call (ImageDataGenerator d) = True"
| "construction_call (Flow_from_directory d f) = True"
| "construction_call _ = False"

subsection \<open>Predicates on runs\<close>

text \<open>A computation keeps a property of all calls of the trace.\<close>

definition keeps :: "(('a, 'g, 'm, 'o) call \<Rightarrow> bool) \<Rightarrow>
    (('a, 'g, 'm, 'o) state \<Rightarrow> ('e, 'x) outcome \<times> ('a, 'g, 'm, 'o) state) \<Rightarrow> bool" where
  "keeps P m = (\<forall>s. list_all P (trace s) \<longrightarrow> list_all P (trace (snd (m s))))"


text \<open>What follows a computation that does not return is skipped.\<close>

definition stuck :: "('e, 'x) outcome \<times> 's \<Rightarrow> ('e, 'y) outcome \<times> 's" where
  "stuck r = (case r of (Raises e, s) \<Rightarrow> (Raises e, s) | (_, s) \<Rightarrow> (OutOfFuel, s))"


text \<open>No call of a trace raised: the framework, asked about each call after the calls
  before it, raised nothing.\<close>

definition quiet :: "('a, 'e, 'g, 'm, 'o, 'h) framework \<Rightarrow> ('a, 'g, 'm, 'o) call list \<Rightarrow> bool" where
  "quiet fw l = (\<forall>i<length l. raises fw (take i l) (l ! i) = None)"


text \<open>
  The outcome of a run is faithful to the framework: when the run raises \<open>e\<close>, the last
  call made is the one the framework answered by raising \<open>e\<close>, and no call before it
  raised; otherwise no call raised.
\<close>

definition faithful :: "('a, 'e, 'g, 'm, 'o, 'h) framework \<Rightarrow>
    ('e, 'x) outcome \<times> ('a, 'g, 'm, 'o) state \<Rightarrow> bool" where
  "faithful fw r =
     (case fst r of
        Raises e \<Rightarrow> trace (snd r) \<noteq> [] \<and> quiet fw (butlast (trace (snd r))) \<and>
                    raises fw (butlast (trace (snd r))) (last (trace (snd r))) = Some e
      | _ \<Rightarrow> quiet fw (trace (snd r)))"

definition sound :: "('a, 'e, 'g, 'm, 'o, 'h) framework \<Rightarrow>
    (('a, 'g, 'm, 'o) state \<Rightarrow> ('e, 'x) outcome \<times> ('a, 'g, 'm, 'o) state) \<Rightarrow> bool" where
  "sound fw m = (\<forall>s. quiet fw (trace s) \<longrightarrow> faithful fw (m s))"


text \<open>
  The element-wise zip of what the two iterators of a generator produce, in the words of
  the specification: its \<open>k\<close>-th element pairs the \<open>k\<close>-th batch of the first with the
  \<open>k\<close>-th batch of the second.
\<close>

definition zip_stream :: "('a, 'e, 'g, 'm, 'o, 'h) framework \<Rightarrow> gen \<Rightarrow> nat \<Rightarrow> 'a \<times> 'a" where
  "zip_stream fw g k =
     (case g of GenZip i j \<Rightarrow>
        (flow_batches fw (it_datagen i) (it_flow i) (random_state fw) k,
         flow_batches fw (it_datagen j) (it_flow j) (random_state fw) k))"

subsection \<open>The checkpoint callback during training\<close>

text \<open>
  Whether and when the checkpoint file is written is decided inside Keras, by the epoch
  loop of \<open>fit_generator\<close> and by \<open>ModelCheckpoint\<close>. The definitions of this subsection
  follow Keras, not the repository:
  \<^item> training runs \<open>for epoch in range(epochs)\<close> and calls \<open>on_epoch_end(epoch, logs)\<close> of
    each callback after each epoch (an \<open>epochs\<close> that is \<open>None\<close> makes \<open>fit_generator\<close>
    raise; it counts as no epoch here);
  \<^item> \<open>ModelCheckpoint\<close> compares with \<open>np.greater\<close> when \<open>mode\<close> is "max", with \<open>np.less\<close>
    when it is "min", and otherwise with \<open>np.greater\<close> if the monitor's name contains
    "acc" or starts with "fmeasure" and with \<open>np.less\<close> if not; \<open>best\<close> starts at minus
    or plus infinity (\<open>None\<close> here);
  \<^item> with \<open>save_best_only\<close>, at the end of an epoch \<open>current = logs.get(monitor)\<close>; the
    epoch is skipped when \<open>current\<close> is \<open>None\<close>; when \<open>current\<close> improves on \<open>best\<close> it
    becomes \<open>best\<close> and the model is saved to the file, overwriting it; without
    \<open>save_best_only\<close> the model is saved after every epoch.
  Monitored values are reals: a NaN, which improves on nothing, is not modelled.
\<close>

definition epochs_run :: "fit_kwargs \<Rightarrow> nat" where
  "epochs_run f = (case kw_epochs f of Some e \<Rightarrow> nat e | None \<Rightarrow> 0)"

definition monitored :: "checkpoint_kwargs \<Rightarrow> logs \<Rightarrow> real option" where
  "monitored k l = (case kw_monitor k of Some mon \<Rightarrow> l mon | None \<Rightarrow> None)"

definition higher_is_better :: "checkpoint_kwargs \<Rightarrow> bool" where
  "higher_is_better k =
     (if kw_mode k = ''max'' then True
      else if kw_mode k = ''min'' then False
      else (case kw_monitor k of
              Some mon \<Rightarrow> sublist ''acc'' mon \<or> prefix ''fmeasure'' mon
            | None \<Rightarrow> False))"

definition improves :: "checkpoint_kwargs \<Rightarrow> real \<Rightarrow> real option \<Rightarrow> bool" where
  "improves k current b =
     (case b of
        None \<Rightarrow> True
      | Some v \<Rightarrow> if higher_is_better k then v < current else current < v)"

text \<open>The callback's state: the best value so far, and the epochs after which the file
  was written, the latest last: the file holds the model of the last of them.\<close>

record ckpt_state =
  best :: "real option"
  written :: "nat list"

definition on_epoch_end :: "checkpoint_kwargs \<Rightarrow> nat \<Rightarrow> logs \<Rightarrow> ckpt_state \<Rightarrow> ckpt_state" where
  "on_epoch_end k e l st =
     (if kw_save_best_only k
      then (case monitored k l of
              None \<Rightarrow> st
            | Some current \<Rightarrow>
                if improves k current (best st)
                then \<lparr>best = Some current, written = written st @ [e]\<rparr>
                else st)
      else st\<lparr>written := written st @ [e]\<rparr>)"

text \<open>The callback after the first \<open>n\<close> epochs of a training with logs \<open>ls\<close>.\<close>

fun checkpoint_epochs :: "checkpoint_kwargs \<Rightarrow> (nat \<Rightarrow> logs) \<Rightarrow> nat \<Rightarrow> ckpt_state" where
  "checkpoint_epochs k ls 0 = \<lparr>best = None, written = []\<rparr>"
| "checkpoint_epochs k ls (Suc n) = on_epoch_end k n (ls n) (checkpoint_epochs k ls n)"

text \<open>The callback \<open>k\<close> after the training \<open>fit_generator\<close> of model \<open>m\<close> with arguments \<open>f\<close>
  in store \<open>sn\<close>.\<close>

definition checkpoint_after ::
  "('a, 'e, 'g, 'm, 'o, 'h) framework \<Rightarrow> 'm \<Rightarrow> fit_kwargs \<Rightarrow> (nat \<Rightarrow> nat) \<Rightarrow>
   checkpoint_kwargs \<Rightarrow> ckpt_state" where
  "checkpoint_after fw m f sn k = checkpoint_epochs k (epoch_logs fw m f sn) (epochs_run f)"

text \<open>
  A framework draws the batches of a seeded iterator from the iterator's arguments alone:
  Keras reseeds the random generator from \<open>seed\<close> before it shuffles, and consults the
  random state it finds only when \<open>seed\<close> is \<open>None\<close>.
\<close>

definition seeded :: "('a, 'e, 'g, 'm, 'o, 'h) framework \<Rightarrow> bool" where
  "seeded fw =
     (\<forall>d f r r' k. kw_seed f \<noteq> None \<longrightarrow> flow_batches fw d f r k = flow_batches fw d f r' k)"

subsection \<open>A framework and arguments to run on\<close>

text \<open>
  A framework in which nothing raises. A batch is named by its directory, its subset and
  its number, which for an iterator without seed depends on the random state; a model by
  the segmentation model and its input size; the history tells how many batches the two
  iterators of the training generator had handed out before training started. From epoch
  to epoch the losses fall and the Jaccard indices rise.
\<close>

definition fw0 ::
  "(string \<times> string \<times> nat, string, string, string \<times> int list, string, nat \<times> nat) framework" where
  "fw0 = \<lparr>raises = (\<lambda>_ _. None),
          random_state = 0,
          flow_batches = (\<lambda>d f r k. (kw_directory f, kw_subset f,
                            case kw_seed f of Some _ \<Rightarrow> k | None \<Rightarrow> k + r)),
          item0 = (\<lambda>x. x),
          item0_channel0 = (\<lambda>x. x),
          shape = (\<lambda>_. [256, 256, 3]),
          collect = (\<lambda>g s. (g, s)),
          compile = (\<lambda>m _. m),
          fit_generator = (\<lambda>m f sn. case kw_generator f of GenZip i j \<Rightarrow> (sn (it_id i), sn (it_id j))),
          epoch_logs = (\<lambda>m f sn e name.
                          if name = ''loss'' \<or> name = ''val_loss'' then Some (1 / real (Suc e))
                          else if name = ''jaccard_index'' \<or> name = ''val_jaccard_index''
                          then Some (1 - 1 / real (Suc e))
                          else None)\<rparr>"

text \<open>The same framework, but \<open>compile\<close> raises.\<close>

definition fw_compile_fails ::
  "(string \<times> string \<times> nat, string, string, string \<times> int list, string, nat \<times> nat) framework" where
  "fw_compile_fails =
     fw0\<lparr>raises := (\<lambda>l c. case c of Compile m k \<Rightarrow> Some ''ValueError'' | _ \<Rightarrow> None)\<rparr>"

text \<open>The default arguments of the source's signature.\<close>

definition a0 :: "(string, string) args" where
  "a0 = \<lparr>segmodel = ''unet'', img_path = ''img'', mask_path = ''msk'', batch_size = Some 16,
         epochs = Some 25, steps_per_epoch = Some 3125, val_split = Some (Float_lit (2 / 10)),
         optimizer = ''Adam'', monitor = Some ''val_jaccard_index'',
         model_file = Some ''unet.h5'', seed = Some 1, show_flag = False\<rparr>"

section \<open>Lemmas\<close>

subsection \<open>Running the model step by step\<close>

lemma and_then_fw_call:
  "and_then (fw_call fw c v) f s =
     (case raises fw (trace s) c of
        Some e \<Rightarrow> (Raises e, s\<lparr>trace := trace s @ [c]\<rparr>)
      | None \<Rightarrow> f v (s\<lparr>trace := trace s @ [c]\<rparr>))"
  by (simp add: and_then_def fw_call_def split: option.splits)

lemma and_then_flow:
  "and_then (flow_from_directory fw d k) f s =
     (case raises fw (trace s) (Flow_from_directory d k) of
        Some e \<Rightarrow> (Raises e, s\<lparr>trace := trace s @ [Flow_from_directory d k]\<rparr>)
      | None \<Rightarrow> f (DirectoryIterator (fresh s) d k)
                 (s\<lparr>trace := trace s @ [Flow_from_directory d k], seen := (seen s)(fresh s := 0), fresh := Suc (fresh s)\<rparr>))"
  by (simp add: and_then_def fw_call_def flow_from_directory_def split: option.splits)

lemma and_then_next:
  "and_then (next_batch fw it) f s =
     (case raises fw (trace s) (Next it) of
        Some e \<Rightarrow> (Raises e, s\<lparr>trace := trace s @ [Next it]\<rparr>)
      | None \<Rightarrow> f (flow_batches fw (it_datagen it) (it_flow it) (random_state fw) (seen s (it_id it)))
                 (s\<lparr>trace := trace s @ [Next it], seen := (seen s)(it_id it := Suc (seen s (it_id it)))\<rparr>))"
  by (simp add: and_then_def fw_call_def next_batch_def split: option.splits)

lemma and_then_fit:
  "and_then (fit_generator_call fw m k) f s =
     (case raises fw (trace s) (Fit_generator m k) of
        Some e \<Rightarrow> (Raises e, s\<lparr>trace := trace s @ [Fit_generator m k]\<rparr>)
      | None \<Rightarrow> f (fit_generator fw m k (seen s)) (s\<lparr>trace := trace s @ [Fit_generator m k]\<rparr>))"
  by (simp add: and_then_def fw_call_def fit_generator_call_def split: option.splits)

lemma and_then_return: "and_then (return x) f s = f x s"
  by (simp add: and_then_def return_def)

lemma and_then_assoc: "and_then (and_then m f) g = and_then m (\<lambda>x. and_then (f x) g)"
  by (auto simp: and_then_def fun_eq_iff split: prod.splits outcome.splits)

lemmas steps = and_then_fw_call and_then_flow and_then_next and_then_fit and_then_return

lemmas script_defs = setup_calls_def training_calls_def image_flow_def mask_flow_def
  image_generator_train_def mask_generator_train_def image_generator_val_def mask_generator_val_def
  train_generator_def val_generator_def checkpoint_def compile_args_def fit_args_def
  first_batch_def built_model_def


lemmas run_simps = train_unet_def train_unet_body_def steps Let_def init_state_def script_defs
  return_def numeral_2_eq_2 numeral_3_eq_3

lemma trace_prefix_noshow:
  "\<not> show_flag a \<Longrightarrow> prefix (trace (snd (train_unet fw n a))) (setup_calls a @ training_calls fw a)"
  by (simp add: run_simps split: option.splits)

lemma returns_noshow:
  "\<not> show_flag a \<Longrightarrow> train_unet fw n a = (Returns h, s) \<Longrightarrow>
     trace s = setup_calls a @ training_calls fw a \<and>
     h = fit_generator fw (compile fw (built_model fw a) (compile_args a)) (fit_args a) (seen s) \<and>
     seen s 0 = 1 \<and> seen s 1 = 0 \<and> seen s 2 = 0 \<and> seen s 3 = 0"
  by (auto simp add: run_simps split: option.splits)

lemma keeps_fw_call: "P c \<Longrightarrow> keeps P (fw_call fw c v)"
  by (simp add: keeps_def fw_call_def split: option.splits)

lemma keeps_and_then: "keeps P m \<Longrightarrow> (\<And>x. keeps P (f x)) \<Longrightarrow> keeps P (and_then m f)"
  unfolding keeps_def and_then_def
  by (auto split: prod.splits outcome.splits)

lemma keeps_return: "keeps P (return x)"
  by (simp add: keeps_def return_def)

lemma keeps_next_batch: "P (Next it) \<Longrightarrow> keeps P (next_batch fw it)"
  unfolding next_batch_def
  by (rule keeps_and_then, erule keeps_fw_call) (simp add: keeps_def)

lemma keeps_gen_next: "P (Next i) \<Longrightarrow> P (Next j) \<Longrightarrow> keeps P (gen_next fw (GenZip i j))"
  by (simp add: keeps_and_then keeps_next_batch keeps_return)

lemma keeps_show_pair:
  "P (Plt_figure 0) \<Longrightarrow> P (Plt_figure 1) \<Longrightarrow> P Plt_show \<Longrightarrow> (\<And>x. P (Plt_imshow x)) \<Longrightarrow>
   (\<And>x. P (Getitem_first x)) \<Longrightarrow> (\<And>x. P (Getitem_first_channel x)) \<Longrightarrow> keeps P (show_pair fw p)"
  unfolding show_pair_def
  by (cases p) (simp add: keeps_and_then keeps_fw_call)

lemma keeps_show_loop:
  "P (Next i) \<Longrightarrow> P (Next j) \<Longrightarrow>
   P (Plt_figure 0) \<Longrightarrow> P (Plt_figure 1) \<Longrightarrow> P Plt_show \<Longrightarrow> (\<And>x. P (Plt_imshow x)) \<Longrightarrow>
   (\<And>x. P (Getitem_first x)) \<Longrightarrow> (\<And>x. P (Getitem_first_channel x)) \<Longrightarrow>
   keeps P (show_loop fw n (GenZip i j))"
proof (induction n)
  case 0
  show ?case by (simp add: keeps_def)
next
  case (Suc n)
  show ?case
    unfolding show_loop.simps
    by (intro keeps_and_then keeps_gen_next keeps_show_pair Suc)
qed

lemma and_then_Returns:
  "fst (and_then m f s) = Returns y \<Longrightarrow> \<exists>x s'. m s = (Returns x, s') \<and> fst (f x s') = Returns y"
  by (auto simp: and_then_def split: prod.splits outcome.splits)

lemma show_loop_no_return: "fst (show_loop fw n g s) \<noteq> Returns x"
proof (induction n arbitrary: s)
  case 0
  show ?case by simp
next
  case (Suc n)
  show ?case
  proof
    assume "fst (show_loop fw (Suc n) g s) = Returns x"
    then have "\<exists>s2. fst (show_loop fw n g s2) = Returns x"
      by (auto dest!: and_then_Returns)
    with Suc show False by blast
  qed
qed

lemma and_then_show_loop: "and_then (show_loop fw n g) f s = stuck (show_loop fw n g s)"
  using show_loop_no_return [of fw n g s]
  by (auto simp: and_then_def stuck_def split: prod.splits outcome.splits)

lemma snd_stuck [simp]: "snd (stuck r) = snd r"
  by (auto simp: stuck_def split: prod.splits outcome.splits)

lemma fst_stuck [simp]: "fst (stuck r) \<noteq> Returns h"
  by (auto simp: stuck_def split: prod.splits outcome.splits)

lemma trace_calls_show:
  assumes "show_flag a"
  shows "list_all (\<lambda>c. c \<in> set (setup_calls a) \<or> debug_call a c) (trace (snd (train_unet fw n a)))"
proof -
  let ?P = "\<lambda>c. c \<in> set (setup_calls a) \<or> debug_call a c"
  have loop: "list_all ?P (trace s) \<Longrightarrow>
      list_all ?P (trace (snd (show_loop fw n (GenZip (image_generator_train a) (mask_generator_train a)) s)))" for s
    using keeps_show_loop [of ?P "image_generator_train a" "mask_generator_train a" fw n]
    by (simp add: keeps_def)
  show ?thesis
    using assms
    apply (simp add: train_unet_def train_unet_body_def steps and_then_assoc and_then_show_loop Let_def init_state_def return_def split: option.splits)
    apply (intro conjI impI allI)
    apply (simp_all add: script_defs numeral_2_eq_2 numeral_3_eq_3)
    apply (rule loop [unfolded script_defs, simplified])
    apply simp
    done
qed

lemma no_return_show: "show_flag a \<Longrightarrow> fst (train_unet fw n a) \<noteq> Returns h"
  by (simp add: train_unet_def train_unet_body_def steps and_then_assoc and_then_show_loop Let_def init_state_def return_def split: option.splits)



subsection \<open>Errors\<close>

lemma quiet_Nil [simp]: "quiet fw []"
  by (simp add: quiet_def)

lemma quiet_snoc: "quiet fw (l @ [c]) \<longleftrightarrow> quiet fw l \<and> raises fw l c = None"
  by (auto simp: quiet_def less_Suc_eq nth_append)

lemma sound_fw_call: "sound fw (fw_call fw c v)"
  by (simp add: sound_def faithful_def fw_call_def quiet_snoc split: option.splits)

lemma sound_return: "sound fw (return x)"
  by (simp add: sound_def faithful_def return_def)

lemma sound_and_then: "sound fw m \<Longrightarrow> (\<And>x. sound fw (f x)) \<Longrightarrow> sound fw (and_then m f)"
  unfolding sound_def and_then_def faithful_def
  by (fastforce split: prod.splits outcome.splits)

lemma sound_flow: "sound fw (flow_from_directory fw d f)"
  unfolding flow_from_directory_def
  by (rule sound_and_then, rule sound_fw_call) (simp add: sound_def faithful_def)

lemma sound_next: "sound fw (next_batch fw it)"
  unfolding next_batch_def
  by (rule sound_and_then, rule sound_fw_call) (simp add: sound_def faithful_def)

lemma sound_fit: "sound fw (fit_generator_call fw m k)"
  by (simp add: sound_def faithful_def fit_generator_call_def fw_call_def quiet_snoc split: option.splits)

lemma sound_gen_next: "sound fw (gen_next fw g)"
  by (cases g) (simp add: sound_and_then sound_next sound_return)

lemma sound_show_pair: "sound fw (show_pair fw p)"
  unfolding show_pair_def
  by (cases p) (simp add: sound_and_then sound_fw_call)

lemma sound_show_loop: "sound fw (show_loop fw n g)"
proof (induction n)
  case 0
  show ?case by (simp add: sound_def faithful_def)
next
  case (Suc n)
  show ?case
    unfolding show_loop.simps
    by (intro sound_and_then sound_gen_next sound_show_pair Suc)
qed

lemma sound_train_unet_body: "sound fw (train_unet_body fw n a)"
  unfolding train_unet_body_def Let_def
  by (intro sound_and_then sound_fw_call sound_flow sound_next sound_fit sound_return)
     (simp add: sound_and_then sound_fw_call sound_show_loop sound_return)

lemma faithful_train_unet: "faithful fw (train_unet fw n a)"
  using sound_train_unet_body [of fw n a]
  by (simp add: sound_def train_unet_def init_state_def)

subsection \<open>Runs in which nothing raises\<close>

lemma show_loop_quiet:
  "\<forall>l c. raises fw l c = None \<Longrightarrow>
   fst (show_loop fw n (GenZip i j) s) = OutOfFuel \<and>
   length (filter (\<lambda>c. c = Plt_show) (trace (snd (show_loop fw n (GenZip i j) s)))) =
     length (filter (\<lambda>c. c = Plt_show) (trace s)) + n"
  by (induction n arbitrary: s) (simp_all add: steps and_then_assoc show_pair_def)

lemma pull_quiet:
  "\<forall>l c. raises fw l c = None \<Longrightarrow> it_id i \<noteq> it_id j \<Longrightarrow>
   fst (pull fw (GenZip i j) k s) =
     Returns (flow_batches fw (it_datagen i) (it_flow i) (random_state fw) (seen s (it_id i) + k),
              flow_batches fw (it_datagen j) (it_flow j) (random_state fw) (seen s (it_id j) + k))"
  by (induction k arbitrary: s) (simp_all add: steps and_then_assoc return_def)

lemma prefix_snoc_mem:
  "prefix p (ys @ [z]) \<Longrightarrow> z \<in> set p \<Longrightarrow> z \<notin> set ys \<Longrightarrow> p = ys @ [z]"
  by (auto simp: prefix_snoc dest: set_mono_prefix)


subsection \<open>The calls of a run\<close>

text \<open>
  Every call of a run is one of the calls named above: with \<open>show=False\<close> the trace
  is a prefix of \<open>setup_calls\<close> followed by \<open>training_calls\<close>; with \<open>show=True\<close> it
  holds calls of the set-up and of the debugging branch only.
\<close>

lemma trace_calls:
  assumes "train_unet fw n a = (out, s)" and "c \<in> set (trace s)"
  shows "\<not> show_flag a \<and> c \<in> set (setup_calls a @ training_calls fw a) \<or>
         show_flag a \<and> (c \<in> set (setup_calls a) \<or> debug_call a c)"
proof -
  have s: "s = snd (train_unet fw n a)"
    using assms(1) by simp
  show ?thesis
  proof (cases "show_flag a")
    case True
    with assms(2) trace_calls_show [of a fw n] show ?thesis
      by (auto simp: list_all_iff s)
  next
    case False
    from set_mono_prefix [OF trace_prefix_noshow [OF False, of fw n]] assms(2) show ?thesis
      unfolding s using False by blast
  qed
qed

lemma trace_prefix:
  assumes "train_unet fw n a = (out, s)" and "\<not> show_flag a"
  shows "prefix (trace s) (setup_calls a @ training_calls fw a)"
  using trace_prefix_noshow [OF assms(2), of fw n] assms(1) by simp

lemma returns_run:
  assumes "train_unet fw n a = (Returns h, s)"
  shows "\<not> show_flag a" and "trace s = setup_calls a @ training_calls fw a"
    and "h = fit_generator fw (compile fw (built_model fw a) (compile_args a)) (fit_args a) (seen s)"
    and "seen s = (\<lambda>_. 0)(0 := 1)"
proof -
  show ns: "\<not> show_flag a"
    using assms no_return_show [of a fw n h] by auto
  from returns_noshow [OF ns assms]
  show "trace s = setup_calls a @ training_calls fw a"
    and "h = fit_generator fw (compile fw (built_model fw a) (compile_args a)) (fit_args a) (seen s)"
    by simp_all
  show "seen s = (\<lambda>_. 0)(0 := 1)"
    using ns assms
    by (auto simp add: run_simps fun_eq_iff split: option.splits)
qed

lemma run0: "train_unet fw0 0 a0 = (Returns (1, 0), snd (train_unet fw0 0 a0))"
  by (simp add: run_simps fw0_def a0_def prod_eq_iff)

lemma run_compile_fails:
  "fst (train_unet fw_compile_fails 0 a0) = Raises ''ValueError''"
  by (simp add: run_simps fw_compile_fails_def fw0_def a0_def)

lemma fit_in_trace:
  assumes "train_unet fw n a = (out, s)" and fit: "Fit_generator m k \<in> set (trace s)"
  shows "\<not> show_flag a" and "trace s = setup_calls a @ training_calls fw a"
    and "k = fit_args a" and "m = compile fw (built_model fw a) (compile_args a)"
proof -
  from trace_calls [OF assms]
  have ns: "\<not> show_flag a" and k: "k = fit_args a"
    and m: "m = compile fw (built_model fw a) (compile_args a)"
    by (auto simp: setup_calls_def training_calls_def)
  show "\<not> show_flag a" by fact
  show "k = fit_args a" by fact
  show "m = compile fw (built_model fw a) (compile_args a)" by fact
  let ?pre = "setup_calls a @ butlast (training_calls fw a)"
  have "prefix (trace s) (?pre @ [Fit_generator m k])"
    using trace_prefix [OF assms(1) ns] k m
    by (simp add: training_calls_def)
  moreover have "Fit_generator m k \<notin> set ?pre"
    by (simp add: setup_calls_def training_calls_def)
  ultimately have "trace s = ?pre @ [Fit_generator m k]"
    using fit by (blast intro: prefix_snoc_mem)
  then show "trace s = setup_calls a @ training_calls fw a"
    using k m by (simp add: training_calls_def)
qed

subsection \<open>What a consumer draws from the generators after a run\<close>

lemma returns_pull:
  assumes "train_unet fw n a = (Returns h, s)" and "\<forall>l c. raises fw l c = None"
  shows "fst (pull fw (train_generator a) k s) =
           Returns (flow_batches fw (data_gen_args a) (image_flow a ''training'') (random_state fw) (Suc k),
                    flow_batches fw (data_gen_args a) (mask_flow a ''training'') (random_state fw) k)"
    and "fst (pull fw (val_generator a) k s) =
           Returns (flow_batches fw (data_gen_args a) (image_flow a ''validation'') (random_state fw) k,
                    flow_batches fw (data_gen_args a) (mask_flow a ''validation'') (random_state fw) k)"
  using pull_quiet [OF assms(2), of _ _ k s] returns_run(4) [OF assms(1)]
  by (simp_all add: train_generator_def val_generator_def image_generator_train_def
        mask_generator_train_def image_generator_val_def mask_generator_val_def)

lemma fw0_quiet: "\<forall>l c. raises fw0 l c = None"
  by (simp add: fw0_def)

lemma fw0_flow_batches:
  "flow_batches fw0 d f r k =
     (kw_directory f, kw_subset f, case kw_seed f of Some _ \<Rightarrow> k | None \<Rightarrow> k + r)"
  by (simp add: fw0_def)

subsection \<open>The checkpoint callback\<close>

text \<open>With \<open>save_best_only\<close> the file is written exactly when some epoch reports the
  monitored quantity; when higher is better, the file holds at the end the model of an
  epoch whose monitored value no epoch exceeds.\<close>

lemma checkpoint_written_iff:
  assumes "kw_save_best_only k"
  shows "(best (checkpoint_epochs k ls n) = None \<longleftrightarrow> written (checkpoint_epochs k ls n) = []) \<and>
         (written (checkpoint_epochs k ls n) = [] \<longleftrightarrow> (\<forall>e<n. monitored k (ls e) = None))"
proof (induction n)
  case 0
  show ?case by simp
next
  case (Suc n)
  show ?case
  proof (cases "monitored k (ls n)")
    case None
    with Suc assms show ?thesis
      by (simp add: on_epoch_end_def less_Suc_eq)
  next
    case (Some current)
    show ?thesis
    proof (cases "improves k current (best (checkpoint_epochs k ls n))")
      case True
      with Some assms show ?thesis
        by (auto simp: on_epoch_end_def)
    next
      case False
      then have "best (checkpoint_epochs k ls n) \<noteq> None"
        by (auto simp: improves_def split: option.splits)
      with Suc False Some assms show ?thesis
        by (auto simp: on_epoch_end_def less_Suc_eq)
    qed
  qed
qed

lemma checkpoint_keeps_greatest:
  assumes "kw_save_best_only k" and "higher_is_better k"
    and "written (checkpoint_epochs k ls n) \<noteq> []"
  shows "last (written (checkpoint_epochs k ls n)) < n \<and>
         (\<exists>v. best (checkpoint_epochs k ls n) = Some v \<and>
              monitored k (ls (last (written (checkpoint_epochs k ls n)))) = Some v \<and>
              (\<forall>e<n. \<forall>u. monitored k (ls e) = Some u \<longrightarrow> u \<le> v))"
  using assms(3)
proof (induction n)
  case 0
  then show ?case by simp
next
  case (Suc n)
  let ?st = "checkpoint_epochs k ls n"
  note inv = checkpoint_written_iff [OF assms(1), of ls n]
  show ?case
  proof (cases "monitored k (ls n)")
    case None
    with Suc assms(1) have w: "written ?st \<noteq> []"
      by (simp add: on_epoch_end_def)
    from Suc.IH [OF w] None assms(1) show ?thesis
      by (auto simp: on_epoch_end_def less_Suc_eq)
  next
    case (Some current)
    show ?thesis
    proof (cases "improves k current (best ?st)")
      case True
      show ?thesis
      proof (cases "written ?st = []")
        case e: True
        with inv have "\<forall>e<n. monitored k (ls e) = None" by simp
        with True Some assms(1) show ?thesis
          by (auto simp: on_epoch_end_def less_Suc_eq)
      next
        case ne: False
        from Suc.IH [OF ne] obtain v where v: "best ?st = Some v"
          "\<forall>e<n. \<forall>u. monitored k (ls e) = Some u \<longrightarrow> u \<le> v"
          by blast
        with True assms(2) have "v < current"
          by (simp add: improves_def)
        with v True Some assms(1) show ?thesis
          by (fastforce simp: on_epoch_end_def less_Suc_eq)
      qed
    next
      case False
      then obtain b where b: "best ?st = Some b"
        by (auto simp: improves_def split: option.splits)
      with inv have ne: "written ?st \<noteq> []" by simp
      from False b assms(2) have "current \<le> b"
        by (simp add: improves_def)
      with Suc.IH [OF ne] b False Some assms(1) show ?thesis
        by (auto simp: on_epoch_end_def less_Suc_eq)
    qed
  qed
qed

subsection \<open>Further facts for the claims\<close>


lemma run_val_loss3:
  "train_unet fw0 0 (a0\<lparr>epochs := Some 3, monitor := Some ''val_loss''\<rparr>) =
     (Returns (1, 0), snd (train_unet fw0 0 (a0\<lparr>epochs := Some 3, monitor := Some ''val_loss''\<rparr>)))"
  by (simp add: run_simps fw0_def a0_def prod_eq_iff)

lemma seeded_fw0: "seeded fw0"
  by (auto simp: seeded_def fw0_def)

lemma run_unseeded:
  "train_unet fw0 0 (a0\<lparr>seed := None\<rparr>) =
     (Returns (1, 0), snd (train_unet fw0 0 (a0\<lparr>seed := None\<rparr>)))"
  by (simp add: run_simps fw0_def a0_def prod_eq_iff)

lemma run_unseeded_other:
  "train_unet (fw0\<lparr>random_state := 1\<rparr>) 0 (a0\<lparr>seed := None\<rparr>) =
     (Returns (1, 0), snd (train_unet (fw0\<lparr>random_state := 1\<rparr>) 0 (a0\<lparr>seed := None\<rparr>)))"
  by (simp add: run_simps fw0_def a0_def prod_eq_iff)

lemma run0_other:
  "train_unet (fw0\<lparr>random_state := 1\<rparr>) 0 a0 =
     (Returns (1, 0), snd (train_unet (fw0\<lparr>random_state := 1\<rparr>) 0 a0))"
  by (simp add: run_simps fw0_def a0_def prod_eq_iff)

lemma last_trace_returns:
  assumes "train_unet fw n a = (Returns h, s)"
  shows "last (trace s) =
    Fit_generator (compile fw (built_model fw a) (compile_args a)) (fit_args a)"
  using returns_run(2) [OF assms] by (simp add: training_calls_def)

lemma fw0_random_state: "random_state fw0 = 0"
  by (simp add: fw0_def)

lemma quiet_butlast: "quiet fw l \<Longrightarrow> quiet fw (butlast l)"
  by (cases l rule: rev_cases) (simp_all add: quiet_snoc)

lemma quiet_last: "quiet fw l \<Longrightarrow> l \<noteq> [] \<Longrightarrow> raises fw (butlast l) (last l) = None"
  by (cases l rule: rev_cases) (simp_all add: quiet_snoc)

lemma trace_compile_fails:
  "trace (snd (train_unet fw_compile_fails 0 a0)) =
     setup_calls a0 @ take 5 (training_calls fw_compile_fails a0)"
  by (simp add: run_simps fw_compile_fails_def fw0_def a0_def)

lemma fst_stuck_OutOfFuel: "fst r = OutOfFuel \<Longrightarrow> fst (stuck r) = OutOfFuel"
  by (auto simp: stuck_def split: prod.splits outcome.splits)

lemma show_run_quiet:
  assumes "show_flag a" and q: "\<forall>l c. raises fw l c = None"
  shows "fst (train_unet fw n a) = OutOfFuel"
    and "length (filter (\<lambda>c. c = Plt_show) (trace (snd (train_unet fw n a)))) = n"
  using assms show_loop_quiet [OF q, of n]
  by (simp_all add: train_unet_def train_unet_body_def steps and_then_assoc and_then_show_loop
        Let_def init_state_def return_def fst_stuck_OutOfFuel)

lemma debug_not_training: "debug_call a c \<Longrightarrow> \<not> training_call c"
  by (cases c) simp_all

lemma setup_not_training: "c \<in> set (setup_calls a) \<Longrightarrow> \<not> training_call c"
  by (auto simp: setup_calls_def)

section \<open>The claims\<close>

text \<open>
  C1. On the default arguments, in a framework where nothing raises, the \<open>j\<close>-th pair
  that training draws from the generator it is given holds image batch \<open>j + 1\<close> and
  mask batch \<open>j\<close>: line 118 has taken image batch 0 from the iterator that the
  generator shares, so images and masks are paired one batch apart.
\<close>

theorem train_stream_off_by_one:
  "\<exists>h s m k. train_unet fw0 0 a0 = (Returns h, s) \<and> last (trace s) = Fit_generator m k \<and>
     (\<forall>j. fst (pull fw0 (kw_generator k) j s) =
            Returns ((''img'', ''training'', Suc j), (''msk'', ''training'', j)))"
proof -
  have "last (trace (snd (train_unet fw0 0 a0))) =
          Fit_generator (compile fw0 (built_model fw0 a0) (compile_args a0)) (fit_args a0)"
    using returns_run(2) [OF run0] by (simp add: training_calls_def)
  moreover have "fst (pull fw0 (kw_generator (fit_args a0)) j (snd (train_unet fw0 0 a0))) =
            Returns ((''img'', ''training'', Suc j), (''msk'', ''training'', j))" for j
    using returns_pull(1) [OF run0 fw0_quiet, of j]
    by (simp add: fit_args_def fw0_def image_flow_def mask_flow_def a0_def)
  ultimately show ?thesis
    using run0 by blast
qed




text \<open>
  C3. In every run, every \<open>ImageDataGenerator\<close> is constructed with
  \<open>validation_split\<close> equal to \<open>val_split\<close>; every directory iterator is made by such a
  generator, for the subset "training" or "validation"; and whenever training is
  started, the training generator zips two iterators of the subset "training" and the
  validation data zips two other iterators of the subset "validation", over the same
  image directory and the same mask directory. A run that completes does start
  training.
\<close>

theorem splits_training_validation:
  assumes "train_unet fw n a = (out, s)"
  shows "(\<forall>d. ImageDataGenerator d \<in> set (trace s) \<longrightarrow> kw_validation_split d = val_split a) \<and>
         (\<forall>d f. Flow_from_directory d f \<in> set (trace s) \<longrightarrow>
            kw_validation_split d = val_split a \<and>
            (kw_subset f = ''training'' \<or> kw_subset f = ''validation'')) \<and>
         (\<forall>m k. Fit_generator m k \<in> set (trace s) \<longrightarrow>
            (\<exists>it jt iv jv.
               kw_generator k = GenZip it jt \<and> kw_validation_data k = GenZip iv jv \<and>
               distinct [it_id it, it_id jt, it_id iv, it_id jv] \<and>
               kw_subset (it_flow it) = ''training'' \<and> kw_subset (it_flow jt) = ''training'' \<and>
               kw_subset (it_flow iv) = ''validation'' \<and> kw_subset (it_flow jv) = ''validation'' \<and>
               kw_directory (it_flow it) = img_path a \<and> kw_directory (it_flow iv) = img_path a \<and>
               kw_directory (it_flow jt) = mask_path a \<and> kw_directory (it_flow jv) = mask_path a \<and>
               Flow_from_directory (it_datagen it) (it_flow it) \<in> set (trace s) \<and>
               Flow_from_directory (it_datagen jt) (it_flow jt) \<in> set (trace s) \<and>
               Flow_from_directory (it_datagen iv) (it_flow iv) \<in> set (trace s) \<and>
               Flow_from_directory (it_datagen jv) (it_flow jv) \<in> set (trace s))) \<and>
         (\<forall>h. out = Returns h \<longrightarrow> (\<exists>m k. Fit_generator m k \<in> set (trace s)))"
proof (intro conjI allI impI)
  fix d
  assume "ImageDataGenerator d \<in> set (trace s)"
  from trace_calls [OF assms this]
  show "kw_validation_split d = val_split a"
    by (auto simp: setup_calls_def training_calls_def data_gen_args_def)
next
  fix d f
  assume "Flow_from_directory d f \<in> set (trace s)"
  from trace_calls [OF assms this]
  show "kw_validation_split d = val_split a"
    and "kw_subset f = ''training'' \<or> kw_subset f = ''validation''"
    by (auto simp: setup_calls_def training_calls_def data_gen_args_def image_flow_def mask_flow_def)
next
  fix m k
  assume "Fit_generator m k \<in> set (trace s)"
  from fit_in_trace(2,3) [OF assms this]
  show "\<exists>it jt iv jv.
               kw_generator k = GenZip it jt \<and> kw_validation_data k = GenZip iv jv \<and>
               distinct [it_id it, it_id jt, it_id iv, it_id jv] \<and>
               kw_subset (it_flow it) = ''training'' \<and> kw_subset (it_flow jt) = ''training'' \<and>
               kw_subset (it_flow iv) = ''validation'' \<and> kw_subset (it_flow jv) = ''validation'' \<and>
               kw_directory (it_flow it) = img_path a \<and> kw_directory (it_flow iv) = img_path a \<and>
               kw_directory (it_flow jt) = mask_path a \<and> kw_directory (it_flow jv) = mask_path a \<and>
               Flow_from_directory (it_datagen it) (it_flow it) \<in> set (trace s) \<and>
               Flow_from_directory (it_datagen jt) (it_flow jt) \<in> set (trace s) \<and>
               Flow_from_directory (it_datagen iv) (it_flow iv) \<in> set (trace s) \<and>
               Flow_from_directory (it_datagen jv) (it_flow jv) \<in> set (trace s)"
    by (simp add: script_defs)
next
  fix h
  assume "out = Returns h"
  with returns_run(2) [of fw n a h s] assms
  show "\<exists>m k. Fit_generator m k \<in> set (trace s)"
    by (auto simp: training_calls_def)
qed

theorem splits_training_validation_witness:
  "\<exists>m k it jt iv jv. Fit_generator m k \<in> set (trace (snd (train_unet fw0 0 a0))) \<and>
     kw_generator k = GenZip it jt \<and> kw_validation_data k = GenZip iv jv \<and>
     kw_subset (it_flow it) = ''training'' \<and> kw_subset (it_flow jv) = ''validation'' \<and>
     kw_directory (it_flow it) = ''img'' \<and> kw_directory (it_flow jv) = ''msk'' \<and>
     kw_validation_split (it_datagen it) = Some (Float_lit (2 / 10))"
proof -
  from splits_training_validation [OF run0]
  obtain m k where fit: "Fit_generator m k \<in> set (trace (snd (train_unet fw0 0 a0)))"
    by blast
  with splits_training_validation [OF run0]
  obtain it jt iv jv where g: "kw_generator k = GenZip it jt" "kw_validation_data k = GenZip iv jv"
    "kw_subset (it_flow it) = ''training''" "kw_subset (it_flow jv) = ''validation''"
    "kw_directory (it_flow it) = img_path a0" "kw_directory (it_flow jv) = mask_path a0"
    "Flow_from_directory (it_datagen it) (it_flow it) \<in> set (trace (snd (train_unet fw0 0 a0)))"
    by blast
  from g(7) splits_training_validation [OF run0]
  have "kw_validation_split (it_datagen it) = val_split a0"
    by blast
  then have v: "kw_validation_split (it_datagen it) = Some (Float_lit (2 / 10))"
    by (simp add: a0_def)
  have d: "kw_directory (it_flow it) = ''img''" "kw_directory (it_flow jv) = ''msk''"
    using g(5,6) by (simp_all add: a0_def)
  from fit g(1-4) d v show ?thesis
    by blast
qed

text \<open>
  C4. In every run, whenever the model is compiled it is with the loss binary
  cross-entropy, the optimizer given and exactly the metrics \<open>jaccard_index\<close> and
  \<open>dice_coef\<close>; and whenever training is started, the call before it is that compilation,
  and the model trained is the compiled one.
\<close>

theorem compiled_with_custom_metrics:
  assumes "train_unet fw n a = (out, s)"
  shows "(\<forall>m k. Compile m k \<in> set (trace s) \<longrightarrow>
            k = \<lparr>kw_loss = Binary_crossentropy, kw_optimizer = optimizer a,
                 kw_metrics = [Jaccard_index, Dice_coef]\<rparr>) \<and>
         (\<forall>m k. Fit_generator m k \<in> set (trace s) \<longrightarrow>
            (\<exists>pre m0. trace s = pre @ [Compile m0 (compile_args a), Fit_generator m k] \<and>
                      m = compile fw m0 (compile_args a)))"
proof (intro conjI allI impI)
  fix m k
  assume "Compile m k \<in> set (trace s)"
  with trace_calls [OF assms, of "Compile m k"]
  show "k = \<lparr>kw_loss = Binary_crossentropy, kw_optimizer = optimizer a,
             kw_metrics = [Jaccard_index, Dice_coef]\<rparr>"
    by (auto simp: script_defs)
next
  fix m k
  assume "Fit_generator m k \<in> set (trace s)"
  from fit_in_trace(2,3,4) [OF assms this]
  show "\<exists>pre m0. trace s = pre @ [Compile m0 (compile_args a), Fit_generator m k] \<and>
                      m = compile fw m0 (compile_args a)"
    by (simp add: training_calls_def setup_calls_def)
qed

theorem compiled_with_custom_metrics_witness:
  "\<exists>m k. Compile m k \<in> set (trace (snd (train_unet fw0 0 a0))) \<and>
     k = \<lparr>kw_loss = Binary_crossentropy, kw_optimizer = ''Adam'',
          kw_metrics = [Jaccard_index, Dice_coef]\<rparr>"
proof -
  have mem: "Compile (built_model fw0 a0) (compile_args a0) \<in> set (trace (snd (train_unet fw0 0 a0)))"
    using returns_run(2) [OF run0] by (simp add: training_calls_def)
  with compiled_with_custom_metrics [OF run0]
  have "compile_args a0 = \<lparr>kw_loss = Binary_crossentropy, kw_optimizer = optimizer a0,
          kw_metrics = [Jaccard_index, Dice_coef]\<rparr>"
    by blast
  then have "compile_args a0 = \<lparr>kw_loss = Binary_crossentropy, kw_optimizer = ''Adam'',
          kw_metrics = [Jaccard_index, Dice_coef]\<rparr>"
    by (simp add: a0_def)
  with mem show ?thesis by blast
qed

text \<open>
  C5. In every run, each configuration argument reaches its library call as it was
  passed: \<open>val_split\<close> the two generators, \<open>img_path\<close> or \<open>mask_path\<close>, \<open>batch_size\<close>
  and \<open>seed\<close> the directory iterators, \<open>model_file\<close> and \<open>monitor\<close> the checkpoint,
  \<open>optimizer\<close> the compilation, \<open>epochs\<close> and \<open>steps_per_epoch\<close> (also as
  \<open>validation_steps\<close>) the training. A run that completes has made exactly the calls
  \<open>setup_calls\<close> and \<open>training_calls\<close>, in this order.
\<close>

theorem arguments_forwarded_unchanged:
  assumes "train_unet fw n a = (out, s)"
  shows "(\<forall>d. ImageDataGenerator d \<in> set (trace s) \<longrightarrow> kw_validation_split d = val_split a) \<and>
         (\<forall>d f. Flow_from_directory d f \<in> set (trace s) \<longrightarrow>
            (kw_directory f = img_path a \<or> kw_directory f = mask_path a) \<and>
            kw_batch_size f = batch_size a \<and> kw_seed f = seed a \<and>
            kw_validation_split d = val_split a) \<and>
         (\<forall>k. ModelCheckpoint k \<in> set (trace s) \<longrightarrow>
            kw_filepath k = model_file a \<and> kw_monitor k = monitor a) \<and>
         (\<forall>m k. Compile m k \<in> set (trace s) \<longrightarrow> kw_optimizer k = optimizer a) \<and>
         (\<forall>m k. Fit_generator m k \<in> set (trace s) \<longrightarrow>
            kw_epochs k = epochs a \<and> kw_steps_per_epoch k = steps_per_epoch a \<and>
            kw_validation_steps k = steps_per_epoch a) \<and>
         (\<forall>h. out = Returns h \<longrightarrow> trace s = setup_calls a @ training_calls fw a)"
proof -
  have known: "c \<in> set (trace s) \<Longrightarrow> \<not> debug_call a c \<Longrightarrow>
      c \<in> set (setup_calls a @ training_calls fw a)" for c
    using trace_calls [OF assms, of c] by auto
  have A: "\<forall>d. ImageDataGenerator d \<in> set (trace s) \<longrightarrow> kw_validation_split d = val_split a"
    using known by (fastforce simp: setup_calls_def training_calls_def data_gen_args_def)
  have B: "\<forall>d f. Flow_from_directory d f \<in> set (trace s) \<longrightarrow>
            (kw_directory f = img_path a \<or> kw_directory f = mask_path a) \<and>
            kw_batch_size f = batch_size a \<and> kw_seed f = seed a \<and>
            kw_validation_split d = val_split a"
    using known
    by (fastforce simp: setup_calls_def training_calls_def data_gen_args_def image_flow_def mask_flow_def)
  have C: "\<forall>k. ModelCheckpoint k \<in> set (trace s) \<longrightarrow>
            kw_filepath k = model_file a \<and> kw_monitor k = monitor a"
    using known by (fastforce simp: setup_calls_def training_calls_def checkpoint_def)
  have D: "\<forall>m k. Compile m k \<in> set (trace s) \<longrightarrow> kw_optimizer k = optimizer a"
    using known by (fastforce simp: setup_calls_def training_calls_def compile_args_def)
  have E: "\<forall>m k. Fit_generator m k \<in> set (trace s) \<longrightarrow>
            kw_epochs k = epochs a \<and> kw_steps_per_epoch k = steps_per_epoch a \<and>
            kw_validation_steps k = steps_per_epoch a"
    using known by (fastforce simp: setup_calls_def training_calls_def fit_args_def)
  have F: "\<forall>h. out = Returns h \<longrightarrow> trace s = setup_calls a @ training_calls fw a"
    using returns_run(2) [of fw n a _ s] assms by simp
  show ?thesis
    by (rule conjI, rule A, rule conjI, rule B, rule conjI, rule C, rule conjI, rule D,
        rule conjI, rule E, rule F)
qed

theorem arguments_forwarded_unchanged_witness:
  "trace (snd (train_unet fw0 0 a0)) =
     [ImageDataGenerator \<lparr>kw_rescale = Float_div (Float_lit 1) (Float_lit 255),
        kw_validation_split = Some (Float_lit (2 / 10)), kw_dtype = TF_float32\<rparr>,
      ImageDataGenerator \<lparr>kw_rescale = Float_div (Float_lit 1) (Float_lit 255),
        kw_validation_split = Some (Float_lit (2 / 10)), kw_dtype = TF_float32\<rparr>,
      Flow_from_directory (data_gen_args a0) (image_flow a0 ''training''),
      Flow_from_directory (data_gen_args a0) (mask_flow a0 ''training''),
      Flow_from_directory (data_gen_args a0) (image_flow a0 ''validation''),
      Flow_from_directory (data_gen_args a0) (mask_flow a0 ''validation''),
      Next (image_generator_train a0),
      Getitem_first (''img'', ''training'', 0),
      Collect ''unet'' [256, 256, 3],
      ModelCheckpoint \<lparr>kw_filepath = Some ''unet.h5'', kw_monitor = Some ''val_jaccard_index'',
        kw_verbose = 1, kw_save_best_only = True, kw_mode = ''max''\<rparr>,
      Compile (''unet'', [256, 256, 3])
        \<lparr>kw_loss = Binary_crossentropy, kw_optimizer = ''Adam'', kw_metrics = [Jaccard_index, Dice_coef]\<rparr>,
      Fit_generator (''unet'', [256, 256, 3])
        \<lparr>kw_generator = train_generator a0, kw_steps_per_epoch = Some 3125, kw_epochs = Some 25,
         kw_callbacks = [checkpoint a0], kw_fit_verbose = 1, kw_validation_data = val_generator a0,
         kw_validation_steps = Some 3125\<rparr>]"
proof -
  from arguments_forwarded_unchanged [OF run0]
  have "trace (snd (train_unet fw0 0 a0)) = setup_calls a0 @ training_calls fw0 a0"
    by blast
  then show ?thesis
    by (simp add: setup_calls_def training_calls_def data_gen_args_def first_batch_def
          built_model_def compile_args_def fit_args_def checkpoint_def fw0_def image_flow_def a0_def)
qed

text \<open>
  C6. A run raises \<open>e\<close> exactly when the framework answered its last call by raising
  \<open>e\<close>, and no call before the last one raised: an error of a library call ends the
  run at once and is the run's error, and the function raises no other.
\<close>

theorem errors_propagate_unchanged:
  assumes "train_unet fw n a = (out, s)"
  shows "(\<forall>e. out = Raises e \<longleftrightarrow>
            trace s \<noteq> [] \<and> raises fw (butlast (trace s)) (last (trace s)) = Some e) \<and>
         quiet fw (butlast (trace s))"
proof -
  have f: "faithful fw (out, s)"
    using faithful_train_unet [of fw n a] assms by simp
  have rest: ?thesis if q: "quiet fw (trace s)" and nr: "\<forall>e. out \<noteq> Raises e"
  proof -
    have "quiet fw (butlast (trace s))"
      by (rule quiet_butlast [OF q])
    moreover have "\<not> (trace s \<noteq> [] \<and> raises fw (butlast (trace s)) (last (trace s)) = Some e)" for e
      using quiet_last [OF q] by auto
    ultimately show ?thesis
      using nr by blast
  qed
  show ?thesis
  proof (cases out)
    case (Raises e)
    with f show ?thesis by (auto simp: faithful_def)
  next
    case (Returns h)
    with f rest show ?thesis by (simp add: faithful_def)
  next
    case OutOfFuel
    with f rest show ?thesis by (simp add: faithful_def)
  qed
qed

theorem errors_propagate_unchanged_witness:
  "fst (train_unet fw_compile_fails 0 a0) = Raises ''ValueError'' \<and>
   (\<exists>m k. last (trace (snd (train_unet fw_compile_fails 0 a0))) = Compile m k)"
proof -
  let ?r = "train_unet fw_compile_fails 0 a0"
  have l: "last (trace (snd ?r)) = Compile (built_model fw_compile_fails a0) (compile_args a0)"
    and ne: "trace (snd ?r) \<noteq> []"
    by (simp_all add: trace_compile_fails training_calls_def)
  have "raises fw_compile_fails (butlast (trace (snd ?r))) (last (trace (snd ?r))) = Some ''ValueError''"
    unfolding l by (simp add: fw_compile_fails_def)
  with ne errors_propagate_unchanged [of fw_compile_fails 0 a0 "fst ?r" "snd ?r"]
  have "fst ?r = Raises ''ValueError''"
    by simp
  with l show ?thesis by blast
qed

text \<open>
  C7. In the same run, the validation data given to training yields the element-wise zip
  of its two iterators, and the training generator does not: its first pair is not the
  first pair of the zip.
\<close>

theorem train_stream_not_zip:
  "\<exists>h s m k. train_unet fw0 0 a0 = (Returns h, s) \<and> last (trace s) = Fit_generator m k \<and>
     fst (pull fw0 (kw_validation_data k) 0 s) = Returns (zip_stream fw0 (kw_validation_data k) 0) \<and>
     fst (pull fw0 (kw_generator k) 0 s) \<noteq> Returns (zip_stream fw0 (kw_generator k) 0)"
proof -
  have "last (trace (snd (train_unet fw0 0 a0))) =
          Fit_generator (compile fw0 (built_model fw0 a0) (compile_args a0)) (fit_args a0)"
    using returns_run(2) [OF run0] by (simp add: training_calls_def)
  moreover have "fst (pull fw0 (kw_validation_data (fit_args a0)) 0 (snd (train_unet fw0 0 a0))) =
            Returns (zip_stream fw0 (kw_validation_data (fit_args a0)) 0)"
    using returns_pull(2) [OF run0 fw0_quiet, of 0]
    by (simp add: fit_args_def zip_stream_def val_generator_def image_generator_val_def
          mask_generator_val_def)
  moreover have "fst (pull fw0 (kw_generator (fit_args a0)) 0 (snd (train_unet fw0 0 a0))) \<noteq>
            Returns (zip_stream fw0 (kw_generator (fit_args a0)) 0)"
    using returns_pull(1) [OF run0 fw0_quiet, of 0]
    by (simp add: fit_args_def zip_stream_def train_generator_def image_generator_train_def
          mask_generator_train_def fw0_flow_batches image_flow_def a0_def)
  ultimately show ?thesis
    using run0 by blast
qed

text \<open>
  C8. In every run and for every value of \<open>monitor\<close>, a \<open>ModelCheckpoint\<close> is
  constructed with \<open>mode="max"\<close>, never "min" or "auto", so that higher counts as better,
  and the callbacks given to training are such checkpoints. Hence, whenever the training
  saves the checkpoint at all, the model the file holds at the end is that of an epoch
  whose monitored value no epoch of the training exceeds: for a monitor where lower is
  better, such as \<open>val_loss\<close>, the worst epoch.
\<close>

theorem checkpoint_mode_always_max:
  assumes "train_unet fw n a = (out, s)"
  shows "(\<forall>k. ModelCheckpoint k \<in> set (trace s) \<longrightarrow>
            kw_mode k = ''max'' \<and> kw_mode k \<noteq> ''min'' \<and> kw_mode k \<noteq> ''auto'' \<and>
            kw_monitor k = monitor a \<and> higher_is_better k) \<and>
         (\<forall>m f k. Fit_generator m f \<in> set (trace s) \<and> k \<in> set (kw_callbacks f) \<longrightarrow>
            kw_mode k = ''max'' \<and> kw_monitor k = monitor a \<and> ModelCheckpoint k \<in> set (trace s) \<and>
            (written (checkpoint_after fw m f (seen s) k) \<noteq> [] \<longrightarrow>
               last (written (checkpoint_after fw m f (seen s) k)) < epochs_run f \<and>
               (\<exists>v. monitored k (epoch_logs fw m f (seen s)
                        (last (written (checkpoint_after fw m f (seen s) k)))) = Some v \<and>
                    (\<forall>e<epochs_run f. \<forall>u.
                        monitored k (epoch_logs fw m f (seen s) e) = Some u \<longrightarrow> u \<le> v))))"
proof -
  have A: "\<forall>k. ModelCheckpoint k \<in> set (trace s) \<longrightarrow>
            kw_mode k = ''max'' \<and> kw_mode k \<noteq> ''min'' \<and> kw_mode k \<noteq> ''auto'' \<and>
            kw_monitor k = monitor a \<and> higher_is_better k"
    using trace_calls [OF assms]
    by (fastforce simp: setup_calls_def training_calls_def checkpoint_def higher_is_better_def)
  have B: "\<forall>m f k. Fit_generator m f \<in> set (trace s) \<and> k \<in> set (kw_callbacks f) \<longrightarrow>
            kw_mode k = ''max'' \<and> kw_monitor k = monitor a \<and> ModelCheckpoint k \<in> set (trace s) \<and>
            (written (checkpoint_after fw m f (seen s) k) \<noteq> [] \<longrightarrow>
               last (written (checkpoint_after fw m f (seen s) k)) < epochs_run f \<and>
               (\<exists>v. monitored k (epoch_logs fw m f (seen s)
                        (last (written (checkpoint_after fw m f (seen s) k)))) = Some v \<and>
                    (\<forall>e<epochs_run f. \<forall>u.
                        monitored k (epoch_logs fw m f (seen s) e) = Some u \<longrightarrow> u \<le> v)))"
  proof (intro allI impI, elim conjE)
    fix m f k
    assume fit: "Fit_generator m f \<in> set (trace s)" and k: "k \<in> set (kw_callbacks f)"
    from fit_in_trace(3) [OF assms fit] k have ck: "k = checkpoint a"
      by (simp add: fit_args_def)
    then have sb: "kw_save_best_only k" and hb: "higher_is_better k"
      by (simp_all add: checkpoint_def higher_is_better_def)
    have 1: "kw_mode k = ''max'' \<and> kw_monitor k = monitor a \<and> ModelCheckpoint k \<in> set (trace s)"
      using fit_in_trace(2) [OF assms fit] ck
      by (simp add: checkpoint_def training_calls_def)
    have 2: "written (checkpoint_after fw m f (seen s) k) \<noteq> [] \<longrightarrow>
               last (written (checkpoint_after fw m f (seen s) k)) < epochs_run f \<and>
               (\<exists>v. monitored k (epoch_logs fw m f (seen s)
                        (last (written (checkpoint_after fw m f (seen s) k)))) = Some v \<and>
                    (\<forall>e<epochs_run f. \<forall>u.
                        monitored k (epoch_logs fw m f (seen s) e) = Some u \<longrightarrow> u \<le> v))"
      using checkpoint_keeps_greatest [OF sb hb, of "epoch_logs fw m f (seen s)" "epochs_run f"]
      unfolding checkpoint_after_def by blast
    from 1 2 show "kw_mode k = ''max'' \<and> kw_monitor k = monitor a \<and> ModelCheckpoint k \<in> set (trace s) \<and>
            (written (checkpoint_after fw m f (seen s) k) \<noteq> [] \<longrightarrow>
               last (written (checkpoint_after fw m f (seen s) k)) < epochs_run f \<and>
               (\<exists>v. monitored k (epoch_logs fw m f (seen s)
                        (last (written (checkpoint_after fw m f (seen s) k)))) = Some v \<and>
                    (\<forall>e<epochs_run f. \<forall>u.
                        monitored k (epoch_logs fw m f (seen s) e) = Some u \<longrightarrow> u \<le> v)))"
      by blast
  qed
  show ?thesis
    by (rule conjI, rule A, rule B)
qed

theorem checkpoint_mode_always_max_witness:
  "\<exists>m f k v. Fit_generator m f
       \<in> set (trace (snd (train_unet fw0 0 (a0\<lparr>epochs := Some 3, monitor := Some ''val_loss''\<rparr>)))) \<and>
     kw_callbacks f = [k] \<and> kw_monitor k = Some ''val_loss'' \<and> kw_mode k = ''max'' \<and>
     written (checkpoint_after fw0 m f
        (seen (snd (train_unet fw0 0 (a0\<lparr>epochs := Some 3, monitor := Some ''val_loss''\<rparr>)))) k) = [0] \<and>
     monitored k (epoch_logs fw0 m f
        (seen (snd (train_unet fw0 0 (a0\<lparr>epochs := Some 3, monitor := Some ''val_loss''\<rparr>)))) 0) = Some v \<and>
     monitored k (epoch_logs fw0 m f
        (seen (snd (train_unet fw0 0 (a0\<lparr>epochs := Some 3, monitor := Some ''val_loss''\<rparr>)))) 2) = Some (1 / 3) \<and>
     1 / 3 \<le> v"
proof -
  let ?a = "a0\<lparr>epochs := Some 3, monitor := Some ''val_loss''\<rparr>"
  let ?s = "snd (train_unet fw0 0 ?a)"
  let ?m = "compile fw0 (built_model fw0 ?a) (compile_args ?a)"
  let ?w = "written (checkpoint_after fw0 ?m (fit_args ?a) (seen ?s) (checkpoint ?a))"
  have fit: "Fit_generator ?m (fit_args ?a) \<in> set (trace ?s)"
    using returns_run(2) [OF run_val_loss3] by (simp add: training_calls_def)
  have cb: "kw_callbacks (fit_args ?a) = [checkpoint ?a]"
    by (simp add: fit_args_def)
  have w: "?w = [0]"
    by (simp add: checkpoint_after_def epochs_run_def fit_args_def checkpoint_def numeral_3_eq_3
          on_epoch_end_def monitored_def improves_def higher_is_better_def fw0_def a0_def)
  have e: "epochs_run (fit_args ?a) = 3"
    by (simp add: epochs_run_def fit_args_def a0_def)
  have l2: "monitored (checkpoint ?a) (epoch_logs fw0 ?m (fit_args ?a) (seen ?s) 2) = Some (1 / 3)"
    by (simp add: monitored_def checkpoint_def fw0_def a0_def)
  from checkpoint_mode_always_max [OF run_val_loss3] fit cb
  have T: "?w \<noteq> [] \<longrightarrow>
        (\<exists>v. monitored (checkpoint ?a) (epoch_logs fw0 ?m (fit_args ?a) (seen ?s) (last ?w)) = Some v \<and>
             (\<forall>e<epochs_run (fit_args ?a). \<forall>u.
                 monitored (checkpoint ?a) (epoch_logs fw0 ?m (fit_args ?a) (seen ?s) e) = Some u \<longrightarrow>
                 u \<le> v))"
    by (elim conjE allE [of _ ?m] allE [of _ "fit_args ?a"] allE [of _ "checkpoint ?a"]) simp
  have "\<exists>v. monitored (checkpoint ?a) (epoch_logs fw0 ?m (fit_args ?a) (seen ?s) 0) = Some v \<and>
             (\<forall>e<3. \<forall>u.
                 monitored (checkpoint ?a) (epoch_logs fw0 ?m (fit_args ?a) (seen ?s) e) = Some u \<longrightarrow>
                 u \<le> v)"
    using T unfolding w e by simp
  then obtain v where v: "monitored (checkpoint ?a) (epoch_logs fw0 ?m (fit_args ?a) (seen ?s) 0) = Some v"
    and gr: "\<forall>e<3. \<forall>u.
                 monitored (checkpoint ?a) (epoch_logs fw0 ?m (fit_args ?a) (seen ?s) e) = Some u \<longrightarrow>
                 u \<le> v"
    by blast
  have "(2::nat) < 3" by simp
  with gr l2 have le: "1 / 3 \<le> v" by blast
  have md: "kw_monitor (checkpoint ?a) = Some ''val_loss''" "kw_mode (checkpoint ?a) = ''max''"
    by (simp_all add: checkpoint_def a0_def)
  from fit cb md w v l2 le show ?thesis
    by blast
qed

text \<open>
  C9, as the claim states it, is refuted: two calls with equal arguments and
  \<open>seed=None\<close>, over the same directories, in random states 0 and 1, construct the same
  generators and iterators and draw different batches.
\<close>

theorem unseeded_runs_differ:
  "\<exists>h s m f h' s' m' f'.
     train_unet fw0 0 (a0\<lparr>seed := None\<rparr>) = (Returns h, s) \<and>
     last (trace s) = Fit_generator m f \<and>
     train_unet (fw0\<lparr>random_state := 1\<rparr>) 0 (a0\<lparr>seed := None\<rparr>) = (Returns h', s') \<and>
     last (trace s') = Fit_generator m' f' \<and>
     filter construction_call (trace s') = filter construction_call (trace s) \<and>
     kw_generator f' = kw_generator f \<and>
     fst (pull fw0 (kw_generator f) 0 s) =
       Returns ((''img'', ''training'', 1), (''msk'', ''training'', 0)) \<and>
     fst (pull (fw0\<lparr>random_state := 1\<rparr>) (kw_generator f') 0 s') =
       Returns ((''img'', ''training'', 2), (''msk'', ''training'', 1))"
proof -
  let ?a = "a0\<lparr>seed := None\<rparr>"
  let ?fw = "fw0\<lparr>random_state := 1\<rparr>"
  have q: "\<forall>l c. raises ?fw l c = None"
    by (simp add: fw0_def)
  have tr: "filter construction_call (trace (snd (train_unet ?fw 0 ?a))) =
      filter construction_call (trace (snd (train_unet fw0 0 ?a)))"
    using returns_run(2) [OF run_unseeded] returns_run(2) [OF run_unseeded_other]
    by (simp add: training_calls_def)
  have p0: "fst (pull fw0 (kw_generator (fit_args ?a)) 0 (snd (train_unet fw0 0 ?a))) =
      Returns ((''img'', ''training'', 1), (''msk'', ''training'', 0))"
    using returns_pull(1) [OF run_unseeded fw0_quiet, of 0]
    by (simp add: fit_args_def fw0_flow_batches fw0_random_state image_flow_def mask_flow_def a0_def)
  have p1: "fst (pull ?fw (kw_generator (fit_args ?a)) 0 (snd (train_unet ?fw 0 ?a))) =
      Returns ((''img'', ''training'', 2), (''msk'', ''training'', 1))"
    using returns_pull(1) [OF run_unseeded_other q, of 0]
    by (simp add: fit_args_def fw0_flow_batches image_flow_def mask_flow_def a0_def)
  from tr p0 p1 last_trace_returns [OF run_unseeded] last_trace_returns [OF run_unseeded_other]
  show ?thesis
    using run_unseeded run_unseeded_other by blast
qed

text \<open>
  C9, amended. In every run, every \<open>flow_from_directory\<close> call gets the argument
  \<open>seed\<close>; a run that completes has constructed two generators and four iterators. Two
  completed runs over the same directories, in whatever random states, whose arguments
  agree on \<open>img_path\<close>, \<open>mask_path\<close>, \<open>batch_size\<close>, \<open>val_split\<close> and \<open>seed\<close> have made
  the same constructions and hand equal generators in equal stores to training; and when
  \<open>seed\<close> is not \<open>None\<close>, in a framework that draws the batches of a seeded iterator from
  its arguments alone and in which nothing raises, training draws the same pairs in the
  same order in both runs.
\<close>

theorem generators_determined_by_seed:
  assumes "train_unet fw n a = (out, s)"
  shows "(\<forall>d f. Flow_from_directory d f \<in> set (trace s) \<longrightarrow> kw_seed f = seed a) \<and>
         (\<forall>h. out = Returns h \<longrightarrow>
            (\<exists>d f1 f2 f3 f4. filter construction_call (trace s) =
               [ImageDataGenerator d, ImageDataGenerator d, Flow_from_directory d f1,
                Flow_from_directory d f2, Flow_from_directory d f3, Flow_from_directory d f4])) \<and>
         (\<forall>r' n' a' h h' s'.
            out = Returns h \<and> train_unet (fw\<lparr>random_state := r'\<rparr>) n' a' = (Returns h', s') \<and>
            img_path a' = img_path a \<and> mask_path a' = mask_path a \<and>
            batch_size a' = batch_size a \<and> val_split a' = val_split a \<and> seed a' = seed a \<longrightarrow>
            filter construction_call (trace s') = filter construction_call (trace s) \<and>
            seen s' = seen s \<and>
            (\<exists>m k m' k'. last (trace s) = Fit_generator m k \<and> last (trace s') = Fit_generator m' k' \<and>
               kw_generator k' = kw_generator k \<and> kw_validation_data k' = kw_validation_data k \<and>
               ((\<forall>l c. raises fw l c = None) \<and> seeded fw \<and> seed a \<noteq> None \<longrightarrow>
                  (\<forall>j. fst (pull (fw\<lparr>random_state := r'\<rparr>) (kw_generator k') j s') =
                         fst (pull fw (kw_generator k) j s) \<and>
                       fst (pull (fw\<lparr>random_state := r'\<rparr>) (kw_validation_data k') j s') =
                         fst (pull fw (kw_validation_data k) j s)))))"
proof -
  have A: "\<forall>d f. Flow_from_directory d f \<in> set (trace s) \<longrightarrow> kw_seed f = seed a"
    using trace_calls [OF assms]
    by (fastforce simp: setup_calls_def training_calls_def image_flow_def mask_flow_def)
  have B: "\<forall>h. out = Returns h \<longrightarrow>
            (\<exists>d f1 f2 f3 f4. filter construction_call (trace s) =
               [ImageDataGenerator d, ImageDataGenerator d, Flow_from_directory d f1,
                Flow_from_directory d f2, Flow_from_directory d f3, Flow_from_directory d f4])"
    using returns_run(2) [of fw n a _ s] assms
    by (auto simp: setup_calls_def training_calls_def)
  have C: "\<forall>r' n' a' h h' s'.
            out = Returns h \<and> train_unet (fw\<lparr>random_state := r'\<rparr>) n' a' = (Returns h', s') \<and>
            img_path a' = img_path a \<and> mask_path a' = mask_path a \<and>
            batch_size a' = batch_size a \<and> val_split a' = val_split a \<and> seed a' = seed a \<longrightarrow>
            filter construction_call (trace s') = filter construction_call (trace s) \<and>
            seen s' = seen s \<and>
            (\<exists>m k m' k'. last (trace s) = Fit_generator m k \<and> last (trace s') = Fit_generator m' k' \<and>
               kw_generator k' = kw_generator k \<and> kw_validation_data k' = kw_validation_data k \<and>
               ((\<forall>l c. raises fw l c = None) \<and> seeded fw \<and> seed a \<noteq> None \<longrightarrow>
                  (\<forall>j. fst (pull (fw\<lparr>random_state := r'\<rparr>) (kw_generator k') j s') =
                         fst (pull fw (kw_generator k) j s) \<and>
                       fst (pull (fw\<lparr>random_state := r'\<rparr>) (kw_validation_data k') j s') =
                         fst (pull fw (kw_validation_data k) j s))))"
  proof (intro allI impI, elim conjE)
    fix r' n' a' h h' s'
    let ?fw = "fw\<lparr>random_state := r'\<rparr>"
    assume r: "out = Returns h" and r': "train_unet ?fw n' a' = (Returns h', s')"
      and eq: "img_path a' = img_path a" "mask_path a' = mask_path a"
        "batch_size a' = batch_size a" "val_split a' = val_split a" "seed a' = seed a"
    from assms r have run: "train_unet fw n a = (Returns h, s)" by simp
    have tg: "train_generator a' = train_generator a" and vg: "val_generator a' = val_generator a"
      and flows: "image_flow a' = image_flow a" "mask_flow a' = mask_flow a"
      and dg: "data_gen_args a' = data_gen_args a"
      using eq by (simp_all add: script_defs data_gen_args_def fun_eq_iff)
    have f: "filter construction_call (trace s') = filter construction_call (trace s)"
      using returns_run(2) [OF run] returns_run(2) [OF r'] eq
      by (simp add: training_calls_def setup_calls_def data_gen_args_def image_flow_def mask_flow_def)
    have sn: "seen s' = seen s"
      using returns_run(4) [OF run] returns_run(4) [OF r'] by simp
    note l = last_trace_returns [OF run] last_trace_returns [OF r']
    have g: "kw_generator (fit_args a') = kw_generator (fit_args a)"
      "kw_validation_data (fit_args a') = kw_validation_data (fit_args a)"
      using tg vg by (simp_all add: fit_args_def)
    have p: "(\<forall>l c. raises fw l c = None) \<and> seeded fw \<and> seed a \<noteq> None \<longrightarrow>
        (\<forall>j. fst (pull ?fw (kw_generator (fit_args a')) j s') =
               fst (pull fw (kw_generator (fit_args a)) j s) \<and>
             fst (pull ?fw (kw_validation_data (fit_args a')) j s') =
               fst (pull fw (kw_validation_data (fit_args a)) j s))"
    proof (intro impI allI, elim conjE)
      fix j
      assume q: "\<forall>l c. raises fw l c = None" and sd: "seeded fw" and ns: "seed a \<noteq> None"
      have q': "\<forall>l c. raises ?fw l c = None"
        using q by simp
      have same: "flow_batches fw (data_gen_args a) (image_flow a sub) r' i =
            flow_batches fw (data_gen_args a) (image_flow a sub) (random_state fw) i"
        "flow_batches fw (data_gen_args a) (mask_flow a sub) r' i =
            flow_batches fw (data_gen_args a) (mask_flow a sub) (random_state fw) i" for sub i
        using sd ns by (simp_all add: seeded_def image_flow_def mask_flow_def)
      show "fst (pull ?fw (kw_generator (fit_args a')) j s') =
               fst (pull fw (kw_generator (fit_args a)) j s) \<and>
             fst (pull ?fw (kw_validation_data (fit_args a')) j s') =
               fst (pull fw (kw_validation_data (fit_args a)) j s)"
        using returns_pull [OF run q, of j] returns_pull [OF r' q', of j] flows dg same
        by (simp add: fit_args_def)
    qed
    show "filter construction_call (trace s') = filter construction_call (trace s) \<and>
            seen s' = seen s \<and>
            (\<exists>m k m' k'. last (trace s) = Fit_generator m k \<and> last (trace s') = Fit_generator m' k' \<and>
               kw_generator k' = kw_generator k \<and> kw_validation_data k' = kw_validation_data k \<and>
               ((\<forall>l c. raises fw l c = None) \<and> seeded fw \<and> seed a \<noteq> None \<longrightarrow>
                  (\<forall>j. fst (pull ?fw (kw_generator k') j s') =
                         fst (pull fw (kw_generator k) j s) \<and>
                       fst (pull ?fw (kw_validation_data k') j s') =
                         fst (pull fw (kw_validation_data k) j s))))"
      using f sn l g p by blast
  qed
  show ?thesis
    by (rule conjI, rule A, rule conjI, rule B, rule C)
qed

theorem generators_determined_by_seed_witness:
  "(\<exists>d f. Flow_from_directory d f \<in> set (trace (snd (train_unet fw0 0 a0))) \<and> kw_seed f = Some 1) \<and>
   (\<exists>m k m' k'.
      last (trace (snd (train_unet fw0 0 a0))) = Fit_generator m k \<and>
      last (trace (snd (train_unet (fw0\<lparr>random_state := 1\<rparr>) 0 a0))) = Fit_generator m' k' \<and>
      (\<forall>j. fst (pull (fw0\<lparr>random_state := 1\<rparr>) (kw_generator k') j
                  (snd (train_unet (fw0\<lparr>random_state := 1\<rparr>) 0 a0))) =
            fst (pull fw0 (kw_generator k) j (snd (train_unet fw0 0 a0)))))"
proof -
  have mem: "Flow_from_directory (data_gen_args a0) (image_flow a0 ''training'')
      \<in> set (trace (snd (train_unet fw0 0 a0)))"
    using returns_run(2) [OF run0] by (simp add: setup_calls_def)
  with generators_determined_by_seed [OF run0]
  have "kw_seed (image_flow a0 ''training'') = seed a0"
    by blast
  then have "kw_seed (image_flow a0 ''training'') = Some 1"
    by (simp add: a0_def)
  with mem have 1: "\<exists>d f. Flow_from_directory d f \<in> set (trace (snd (train_unet fw0 0 a0))) \<and>
      kw_seed f = Some 1"
    by blast
  have ns: "seed a0 \<noteq> None"
    by (simp add: a0_def)
  note T = generators_determined_by_seed [OF run0, THEN conjunct2, THEN conjunct2, rule_format,
      of "(1, 0)" 1 0 a0 "(1, 0)" "snd (train_unet (fw0\<lparr>random_state := 1\<rparr>) 0 a0)"]
  have "\<exists>m k m' k'.
      last (trace (snd (train_unet fw0 0 a0))) = Fit_generator m k \<and>
      last (trace (snd (train_unet (fw0\<lparr>random_state := 1\<rparr>) 0 a0))) = Fit_generator m' k' \<and>
      kw_generator k' = kw_generator k \<and> kw_validation_data k' = kw_validation_data k \<and>
      ((\<forall>l c. raises fw0 l c = None) \<and> seeded fw0 \<and> seed a0 \<noteq> None \<longrightarrow>
        (\<forall>j. fst (pull (fw0\<lparr>random_state := 1\<rparr>) (kw_generator k') j
                  (snd (train_unet (fw0\<lparr>random_state := 1\<rparr>) 0 a0))) =
              fst (pull fw0 (kw_generator k) j (snd (train_unet fw0 0 a0))) \<and>
             fst (pull (fw0\<lparr>random_state := 1\<rparr>) (kw_validation_data k') j
                  (snd (train_unet (fw0\<lparr>random_state := 1\<rparr>) 0 a0))) =
              fst (pull fw0 (kw_validation_data k) j (snd (train_unet fw0 0 a0)))))"
    using T run0_other by simp
  with fw0_quiet seeded_fw0 ns
  have 2: "\<exists>m k m' k'.
      last (trace (snd (train_unet fw0 0 a0))) = Fit_generator m k \<and>
      last (trace (snd (train_unet (fw0\<lparr>random_state := 1\<rparr>) 0 a0))) = Fit_generator m' k' \<and>
      (\<forall>j. fst (pull (fw0\<lparr>random_state := 1\<rparr>) (kw_generator k') j
                  (snd (train_unet (fw0\<lparr>random_state := 1\<rparr>) 0 a0))) =
            fst (pull fw0 (kw_generator k) j (snd (train_unet fw0 0 a0))))"
    by blast
  from 1 2 show ?thesis by blast
qed

text \<open>
  C10. A run that returns has \<open>show=False\<close>. With \<open>show=True\<close>, whatever the fuel,
  the run makes no call that builds, compiles or trains the model; and where nothing
  raises it is still in the loop after \<open>n\<close> iterations, for every \<open>n\<close>.
\<close>

theorem show_never_returns:
  assumes "train_unet fw n a = (out, s)"
  shows "(\<forall>h. out = Returns h \<longrightarrow> \<not> show_flag a) \<and>
         (show_flag a \<longrightarrow>
            (\<forall>c \<in> set (trace s). \<not> training_call c) \<and>
            ((\<forall>l c. raises fw l c = None) \<longrightarrow>
               out = OutOfFuel \<and> length (filter (\<lambda>c. c = Plt_show) (trace s)) = n))"
proof -
  have s: "out = fst (train_unet fw n a)" "s = snd (train_unet fw n a)"
    using assms by simp_all
  have A: "\<forall>h. out = Returns h \<longrightarrow> \<not> show_flag a"
    using no_return_show [of a fw n] s by auto
  have B: "show_flag a \<longrightarrow> (\<forall>c \<in> set (trace s). \<not> training_call c)"
    using trace_calls [OF assms] debug_not_training [of a] setup_not_training [of _ a]
    by blast
  have C: "show_flag a \<longrightarrow> (\<forall>l c. raises fw l c = None) \<longrightarrow>
             out = OutOfFuel \<and> length (filter (\<lambda>c. c = Plt_show) (trace s)) = n"
    using show_run_quiet [of a fw n] s by simp
  from A B C show ?thesis by blast
qed

theorem show_never_returns_witness:
  "fst (train_unet fw0 5 (a0\<lparr>show_flag := True\<rparr>)) = OutOfFuel \<and>
   length (filter (\<lambda>c. c = Plt_show) (trace (snd (train_unet fw0 5 (a0\<lparr>show_flag := True\<rparr>))))) = 5"
  using show_never_returns [of fw0 5 "a0\<lparr>show_flag := True\<rparr>"
      "fst (train_unet fw0 5 (a0\<lparr>show_flag := True\<rparr>))"
      "snd (train_unet fw0 5 (a0\<lparr>show_flag := True\<rparr>))"] fw0_quiet
  by simp

end
